theory Spec2Isabelle
  imports Complex_Main
begin

section \<open>Constants of the recipes\<close>

text \<open>
  Recipe 1 (basic ENAS) sets \<open>NUM_LAYERS = 4\<close> and \<open>NUM_OPS = 3\<close>; recipes 3 (PPO) and
  8 (uncertainty-aware) set \<open>NUM_OPS = 5\<close> and \<open>NUM_NODES = 4\<close>. The two values of
  \<open>NUM_OPS\<close> live in different notebooks; the one of recipe 1 is named \<open>NUM_OPS_basic\<close> here.
\<close>

definition NUM_LAYERS :: nat where "NUM_LAYERS = 4"
definition NUM_OPS_basic :: nat where "NUM_OPS_basic = 3"
definition NUM_OPS :: nat where "NUM_OPS = 5"
definition NUM_NODES :: nat where "NUM_NODES = 4"

section \<open>Failures\<close>

text \<open>
  Every way in which the Python code stops is a value. \<open>NanResult\<close> and
  \<open>NonFiniteResult\<close> are not exceptions: the first stands for the float \<open>nan\<close> that torch
  returns for the mean of an empty tensor, the second for a float result that is \<open>inf\<close>,
  \<open>-inf\<close> or \<open>nan\<close>; a real number can hold neither.
\<close>

datatype error =
    UnboundLocalError
  | ZeroDivisionError
  | IndexError
  | AttributeError
  | StackEmptyError
  | CatEmptyError
  | SizeMismatchError
  | MultinomialError
  | ValueError
  | NanResult
  | NonFiniteResult

section \<open>Tensor primitives used by the samplers\<close>

text \<open>Tensors of reals are lists; arithmetic is exact (no rounding).\<close>

definition zeros :: "nat \<Rightarrow> real list" where
  "zeros n = replicate n 0"

definition softmax :: "real list \<Rightarrow> real list" where
  "softmax logits = map (\<lambda>x. exp x / sum_list (map exp logits)) logits"

text \<open>
  \<open>torch.multinomial(probs, 1).item()\<close> draws one index; the draw is made explicit as a
  number \<open>u\<close> taken from the random source, and the index is found by walking the
  cumulative distribution. The last index absorbs whatever is left.
\<close>

fun multinomial :: "real list \<Rightarrow> real \<Rightarrow> nat" where
  "multinomial [] u = 0"
| "multinomial [p] u = 0"
| "multinomial (p # ps) u = (if u < p then 0 else Suc (multinomial ps (u - p)))"

text \<open>The random source: an infinite tape of draws, read at a position that advances.\<close>

type_synonym rng = "nat \<Rightarrow> real"

text \<open>
  The four lines shared by every sampler:
  \<^verbatim>\<open>
  probs = torch.softmax(logits, dim=-1)
  action = torch.multinomial(probs, 1).item()
  actions.append(action)
  log_probs.append(torch.log(probs[0, action]))
  \<close>
  \<open>torch.multinomial\<close> raises on a distribution with no category.
\<close>

definition decide :: "real list \<Rightarrow> real \<Rightarrow> error + (nat \<times> real)" where
  "decide logits u =
     (let probs = softmax logits in
      if probs = [] then Inl MultinomialError
      else let action = multinomial probs u in Inr (action, ln (probs ! action)))"

section \<open>Recipe 1: \<open>Controller\<close>\<close>

text \<open>
  The modules of torch (\<open>nn.LSTMCell\<close>, \<open>nn.Linear\<close>) are taken as the functions they
  compute under the current parameters.
\<close>

record controller =
  hidden_size :: nat
  lstm :: "real list \<Rightarrow> real list \<times> real list \<Rightarrow> real list \<times> real list"
  linear :: "real list \<Rightarrow> real list"

text \<open>
  The body of \<open>for _ in range(num_cells)\<close> in \<open>Controller.forward\<close>, on the loop state
  \<open>((h, c), actions, log_probs)\<close> and the position of the random source.
\<close>

fun controller_loop ::
  "controller \<Rightarrow> rng \<Rightarrow> nat \<Rightarrow> (real list \<times> real list) \<times> nat list \<times> real list \<times> nat
    \<Rightarrow> error + ((real list \<times> real list) \<times> nat list \<times> real list \<times> nat)" where
  "controller_loop P u 0 s = Inr s"
| "controller_loop P u (Suc n) (hc, actions, log_probs, k) =
     (let x = zeros NUM_OPS_basic;
          hc' = lstm P x hc;
          logits = linear P (fst hc')
      in case decide logits (u k) of
           Inl e \<Rightarrow> Inl e
         | Inr (action, lp) \<Rightarrow>
             controller_loop P u n (hc', actions @ [action], log_probs @ [lp], Suc k))"

text \<open>\<open>torch.stack\<close> raises on an empty list of tensors.\<close>

definition Controller_forward ::
  "controller \<Rightarrow> rng \<Rightarrow> nat \<Rightarrow> nat \<Rightarrow> error + (nat list \<times> real list \<times> nat)" where
  "Controller_forward P u k num_cells =
     (let hc = (zeros (hidden_size P), zeros (hidden_size P)) in
      case controller_loop P u num_cells (hc, [], [], k) of
        Inl e \<Rightarrow> Inl e
      | Inr (hc', actions, log_probs, k') \<Rightarrow>
          if log_probs = [] then Inl StackEmptyError
          else Inr (actions, log_probs, k'))"

section \<open>Recipe 3: \<open>PPOController\<close>\<close>

record ppo_controller =
  ppo_hidden_size :: nat
  ppo_lstm :: "real list \<Rightarrow> real list \<times> real list \<Rightarrow> real list \<times> real list"
  actor :: "real list \<Rightarrow> real list"
  critic :: "real list \<Rightarrow> real"

text \<open>
  The inner loop \<open>for _ in range(NUM_NODES * 3)\<close>, on the state
  \<open>((h, c), cell_actions, log_probs, values)\<close>. Each \<open>value\<close> is a tensor of shape (1, 1),
  kept as its one entry.
\<close>

fun ppo_node_loop ::
  "ppo_controller \<Rightarrow> rng \<Rightarrow> nat
    \<Rightarrow> (real list \<times> real list) \<times> nat list \<times> real list \<times> real list \<times> nat
    \<Rightarrow> error + ((real list \<times> real list) \<times> nat list \<times> real list \<times> real list \<times> nat)" where
  "ppo_node_loop Q u 0 s = Inr s"
| "ppo_node_loop Q u (Suc n) (hc, cell_actions, log_probs, vals, k) =
     (let x = zeros NUM_OPS;
          hc' = ppo_lstm Q x hc;
          logits = actor Q (fst hc');
          val = critic Q (fst hc')
      in case decide logits (u k) of
           Inl e \<Rightarrow> Inl e
         | Inr (action, lp) \<Rightarrow>
             ppo_node_loop Q u n
               (hc', cell_actions @ [action], log_probs @ [lp], vals @ [val], Suc k))"

text \<open>The outer loop \<open>for _ in range(num_cells)\<close>.\<close>

fun ppo_cell_loop ::
  "ppo_controller \<Rightarrow> rng \<Rightarrow> nat
    \<Rightarrow> (real list \<times> real list) \<times> nat list list \<times> real list \<times> real list \<times> nat
    \<Rightarrow> error + ((real list \<times> real list) \<times> nat list list \<times> real list \<times> real list \<times> nat)" where
  "ppo_cell_loop Q u 0 s = Inr s"
| "ppo_cell_loop Q u (Suc m) (hc, actions, log_probs, vals, k) =
     (case ppo_node_loop Q u (NUM_NODES * 3) (hc, [], log_probs, vals, k) of
        Inl e \<Rightarrow> Inl e
      | Inr (hc', cell_actions, log_probs', vals', k') \<Rightarrow>
          ppo_cell_loop Q u m (hc', actions @ [cell_actions], log_probs', vals', k'))"

text \<open>
  \<open>torch.stack(log_probs)\<close> has shape (T), \<open>torch.cat(values)\<close> has shape (T, 1) and is
  kept as the list of its T rows' entries. Both raise on an empty list.
\<close>

definition PPOController_forward ::
  "ppo_controller \<Rightarrow> rng \<Rightarrow> nat \<Rightarrow> nat
    \<Rightarrow> error + (nat list list \<times> real list \<times> real list \<times> nat)" where
  "PPOController_forward Q u k num_cells =
     (let hc = (zeros (ppo_hidden_size Q), zeros (ppo_hidden_size Q)) in
      case ppo_cell_loop Q u num_cells (hc, [], [], [], k) of
        Inl e \<Rightarrow> Inl e
      | Inr (hc', actions, log_probs, vals, k') \<Rightarrow>
          if log_probs = [] then Inl StackEmptyError
          else if vals = [] then Inl CatEmptyError
          else Inr (actions, log_probs, vals, k'))"

section \<open>The logits of every decision step, recomputed without sampling\<close>

text \<open>
  The input \<open>x\<close> of the recurrent cell is the zero vector at every step, so the hidden
  state after \<open>j\<close> steps, and with it the logits of step \<open>j\<close>, are a function of the
  parameters alone.
\<close>

definition controller_init :: "controller \<Rightarrow> real list \<times> real list" where
  "controller_init P = (zeros (hidden_size P), zeros (hidden_size P))"

definition controller_hidden ::
  "controller \<Rightarrow> (real list \<times> real list) \<Rightarrow> nat \<Rightarrow> real list \<times> real list" where
  "controller_hidden P hc j = (lstm P (zeros NUM_OPS_basic) ^^ j) hc"

definition controller_logits :: "controller \<Rightarrow> (real list \<times> real list) \<Rightarrow> nat \<Rightarrow> real list" where
  "controller_logits P hc j = linear P (fst (controller_hidden P hc (Suc j)))"

definition ppo_init :: "ppo_controller \<Rightarrow> real list \<times> real list" where
  "ppo_init Q = (zeros (ppo_hidden_size Q), zeros (ppo_hidden_size Q))"

definition ppo_hidden ::
  "ppo_controller \<Rightarrow> (real list \<times> real list) \<Rightarrow> nat \<Rightarrow> real list \<times> real list" where
  "ppo_hidden Q hc j = (ppo_lstm Q (zeros NUM_OPS) ^^ j) hc"

definition ppo_logits :: "ppo_controller \<Rightarrow> (real list \<times> real list) \<Rightarrow> nat \<Rightarrow> real list" where
  "ppo_logits Q hc j = actor Q (fst (ppo_hidden Q hc (Suc j)))"

definition ppo_action ::
  "ppo_controller \<Rightarrow> rng \<Rightarrow> nat \<Rightarrow> (real list \<times> real list) \<Rightarrow> nat \<Rightarrow> nat" where
  "ppo_action Q u k hc j = multinomial (softmax (ppo_logits Q hc j)) (u (k + j))"

section \<open>Tensor arithmetic used by the updates\<close>

text \<open>
  The mean of a tensor; torch returns \<open>nan\<close> for an empty one, and \<open>NanResult\<close> stands
  for it.
\<close>

definition mean_t :: "real list \<Rightarrow> error + real" where
  "mean_t xs = (if xs = [] then Inl NanResult else Inr (sum_list xs / real (length xs)))"

text \<open>
  An elementwise binary operation on two tensors of one dimension, with torch's
  broadcasting: the lengths agree, or one of them is 1; anything else raises.
\<close>

definition broadcast2 ::
  "(real \<Rightarrow> real \<Rightarrow> real) \<Rightarrow> real list \<Rightarrow> real list \<Rightarrow> error + real list" where
  "broadcast2 f a b =
     (if length a = length b then Inr (map2 f a b)
      else if length a = 1 then Inr (map (f (hd a)) b)
      else if length b = 1 then Inr (map (\<lambda>x. f x (hd b)) a)
      else Inl SizeMismatchError)"

section \<open>\<open>evaluate\<close> (the same function in the three recipes)\<close>

text \<open>
  \<^verbatim>\<open>
  def evaluate(model, actions, data):
      correct = 0
      total = 0
      for x, y in data:
          with torch.no_grad():
              outputs = model(x, actions)
              _, predicted = outputs.max(1)
              correct += (predicted == y).sum().item()
              total += y.size(0)
      return correct / total
  \<close>
  The network is outside the model: \<open>model x actions\<close> is the vector \<open>predicted\<close>, the
  class of largest output for each example of the batch \<open>x\<close>. \<open>y\<close> is the vector of labels.
  \<open>correct\<close> and \<open>total\<close> are Python integers, so \<open>correct / total\<close> raises on \<open>total = 0\<close>.
  The comparison \<open>predicted == y\<close> broadcasts like any elementwise operation. The
  variable \<open>total\<close> is written \<open>total_n\<close>.
\<close>

definition count_equal :: "nat list \<Rightarrow> nat list \<Rightarrow> error + nat" where
  "count_equal predicted y =
     (if length predicted = length y
        then Inr (length (filter (\<lambda>(p, t). p = t) (zip predicted y)))
      else if length predicted = 1
        then Inr (length (filter (\<lambda>t. hd predicted = t) y))
      else if length y = 1
        then Inr (length (filter (\<lambda>p. p = hd y) predicted))
      else Inl SizeMismatchError)"

fun evaluate_loop ::
  "('x \<Rightarrow> 'a \<Rightarrow> nat list) \<Rightarrow> 'a \<Rightarrow> ('x \<times> nat list) list \<Rightarrow> nat \<times> nat
    \<Rightarrow> error + (nat \<times> nat)" where
  "evaluate_loop model actions [] (correct, total_n) = Inr (correct, total_n)"
| "evaluate_loop model actions ((x, y) # data) (correct, total_n) =
     (case count_equal (model x actions) y of
        Inl e \<Rightarrow> Inl e
      | Inr c \<Rightarrow> evaluate_loop model actions data (correct + c, total_n + length y))"

definition evaluate ::
  "('x \<Rightarrow> 'a \<Rightarrow> nat list) \<Rightarrow> 'a \<Rightarrow> ('x \<times> nat list) list \<Rightarrow> error + real" where
  "evaluate model actions data =
     (case evaluate_loop model actions data (0, 0) of
        Inl e \<Rightarrow> Inl e
      | Inr (correct, total_n) \<Rightarrow>
          if total_n = 0 then Inl ZeroDivisionError
          else Inr (real correct / real total_n))"

text \<open>The number of examples of a dataset, summed over its batches.\<close>

definition num_examples :: "('x \<times> nat list) list \<Rightarrow> nat" where
  "num_examples data = sum_list (map (\<lambda>(x, y). length y) data)"

section \<open>Recipe 1: the controller phase of \<open>train_enas\<close>\<close>

text \<open>
  \<^verbatim>\<open>
  rewards = []
  for _ in range(10):  # Sample 10 architectures
      actions, log_probs = controller(NUM_LAYERS)
      with torch.no_grad():
          acc = evaluate(shared_cnn, actions, val_data)
      rewards.append(acc)
  \<close>
  The loop state is \<open>rewards\<close>, the loop variables \<open>actions, log_probs\<close> (unbound before
  the first iteration) and the position of the random source.
\<close>

fun enas_sample_loop ::
  "controller \<Rightarrow> ('x \<Rightarrow> nat list \<Rightarrow> nat list) \<Rightarrow> ('x \<times> nat list) list \<Rightarrow> rng \<Rightarrow> nat
    \<Rightarrow> real list \<times> (nat list \<times> real list) option \<times> nat
    \<Rightarrow> error + (real list \<times> (nat list \<times> real list) option \<times> nat)" where
  "enas_sample_loop P model val_data u 0 s = Inr s"
| "enas_sample_loop P model val_data u (Suc n) (rewards, loop_vars, k) =
     (case Controller_forward P u k NUM_LAYERS of
        Inl e \<Rightarrow> Inl e
      | Inr (actions, log_probs, k') \<Rightarrow>
          (case evaluate model actions val_data of
             Inl e \<Rightarrow> Inl e
           | Inr acc \<Rightarrow>
               enas_sample_loop P model val_data u n
                 (rewards @ [acc], Some (actions, log_probs), k')))"

text \<open>
  \<^verbatim>\<open>
  reward = torch.tensor(rewards) - reward.mean()
  controller_optim.zero_grad()
  controller_loss = -(log_probs * reward).sum()
  \<close>
  \<open>reward\<close> is a local variable of \<open>train_enas\<close>, assigned nowhere else: \<open>None\<close> is the
  unbound variable, whose read raises. The result is the new binding of \<open>reward\<close> and
  \<open>controller_loss\<close>. The mean of an empty \<open>reward\<close> is \<open>nan\<close>, which raises nothing: the
  product is formed all the same (and raises when the sizes do not fit), and the result
  then holds \<open>nan\<close> unless \<open>rewards\<close> is empty (an empty tensor has nothing to hold it).
\<close>

definition enas_controller_update ::
  "real list option \<Rightarrow> real list \<Rightarrow> (nat list \<times> real list) option
    \<Rightarrow> error + (real list \<times> real)" where
  "enas_controller_update reward rewards loop_vars =
     (case reward of
        None \<Rightarrow> Inl UnboundLocalError
      | Some prev \<Rightarrow>
          (case loop_vars of
             None \<Rightarrow> Inl UnboundLocalError
           | Some (actions, log_probs) \<Rightarrow>
               (case mean_t prev of
                  Inr m \<Rightarrow>
                    (let reward' = map (\<lambda>r. r - m) rewards in
                     case broadcast2 (*) log_probs reward' of
                       Inl e \<Rightarrow> Inl e
                     | Inr weighted \<Rightarrow> Inr (reward', - sum_list weighted))
                | Inl nan \<Rightarrow>
                    (case broadcast2 (*) log_probs rewards of
                       Inl e \<Rightarrow> Inl e
                     | Inr weighted \<Rightarrow>
                         if rewards = [] then Inr ([], - sum_list weighted)
                         else Inl NanResult))))"

text \<open>The controller phase of one epoch: ten samples, then the update.\<close>

definition enas_controller_phase ::
  "controller \<Rightarrow> ('x \<Rightarrow> nat list \<Rightarrow> nat list) \<Rightarrow> ('x \<times> nat list) list \<Rightarrow> rng \<Rightarrow> nat
    \<Rightarrow> real list option \<Rightarrow> error + (real list \<times> real)" where
  "enas_controller_phase P model val_data u k reward =
     (case enas_sample_loop P model val_data u 10 ([], None, k) of
        Inl e \<Rightarrow> Inl e
      | Inr (rewards, loop_vars, k') \<Rightarrow> enas_controller_update reward rewards loop_vars)"

text \<open>
  The shared-weight phase of an epoch draws one architecture for each training batch and
  updates the network, which is outside the model: \<open>shared_step\<close> is that update.
\<close>

fun enas_shared_phase ::
  "controller \<Rightarrow> ('net \<Rightarrow> 'x \<times> nat list \<Rightarrow> nat list \<Rightarrow> 'net) \<Rightarrow> rng
    \<Rightarrow> ('x \<times> nat list) list \<Rightarrow> 'net \<times> nat \<Rightarrow> error + ('net \<times> nat)" where
  "enas_shared_phase P shared_step u [] s = Inr s"
| "enas_shared_phase P shared_step u (xy # train_data) (net, k) =
     (case Controller_forward P u k NUM_LAYERS of
        Inl e \<Rightarrow> Inl e
      | Inr (actions, log_probs, k') \<Rightarrow>
          enas_shared_phase P shared_step u train_data (shared_step net xy actions, k'))"

text \<open>
  The first epoch of \<open>train_enas\<close>, in which \<open>reward\<close> is still unbound. \<open>predict net\<close> is
  the network with the weights \<open>net\<close>, as \<open>evaluate\<close> calls it.
\<close>

definition train_enas_first_epoch ::
  "controller \<Rightarrow> ('net \<Rightarrow> 'x \<times> nat list \<Rightarrow> nat list \<Rightarrow> 'net)
    \<Rightarrow> ('net \<Rightarrow> 'x \<Rightarrow> nat list \<Rightarrow> nat list) \<Rightarrow> 'net
    \<Rightarrow> ('x \<times> nat list) list \<Rightarrow> ('x \<times> nat list) list \<Rightarrow> rng
    \<Rightarrow> error + (real list \<times> real)" where
  "train_enas_first_epoch P shared_step predict net train_data val_data u =
     (case enas_shared_phase P shared_step u train_data (net, 0) of
        Inl e \<Rightarrow> Inl e
      | Inr (net', k) \<Rightarrow> enas_controller_phase P (predict net') val_data u k None)"


section \<open>Recipe 3: \<open>ppo_update\<close> and the controller phase of \<open>train_enas_ppo\<close>\<close>

text \<open>
  The product of a tensor of shape (L) with one of shape (V, R), given as its V rows:
  torch broadcasts along the last dimension, so L = R, or one of them is 1.
\<close>

definition mul_1d_2d :: "real list \<Rightarrow> nat \<Rightarrow> real list list \<Rightarrow> error + real list list" where
  "mul_1d_2d a R rows =
     (if length a = R \<or> length a = 1 \<or> R = 1
        then Inr (map (\<lambda>row. if length a = length row then map2 (*) a row
                             else if length a = 1 then map ((*) (hd a)) row
                             else map (\<lambda>x. x * hd row) a) rows)
      else Inl SizeMismatchError)"

definition clamp :: "real \<Rightarrow> real \<Rightarrow> real \<Rightarrow> real" where
  "clamp x lo hi = min (max x lo) hi"

text \<open>
  \<^verbatim>\<open>
  def ppo_update(ppo_controller, old_log_probs, old_values, rewards, actions, epsilon=0.2):
      new_actions, new_log_probs, new_values = ppo_controller(len(actions))
      ratios = torch.exp(new_log_probs - old_log_probs)
      advantages = rewards - old_values.detach()
      surr1 = ratios * advantages
      surr2 = torch.clamp(ratios, 1 - epsilon, 1 + epsilon) * advantages
      actor_loss = -torch.min(surr1, surr2).mean()
      critic_loss = nn.MSELoss()(new_values, rewards)
      loss = actor_loss + 0.5 * critic_loss
      return loss
  \<close>
  \<open>old_log_probs\<close>, \<open>new_log_probs\<close> and \<open>rewards\<close> have one dimension; \<open>old_values\<close> and
  \<open>new_values\<close> have shape (V, 1) and are lists of their rows' entries, so
  \<open>rewards - old_values\<close> has shape (V, R) with R the number of rewards. \<open>nn.MSELoss\<close>
  broadcasts its two arguments in the same way (with a warning only).
\<close>

definition ppo_update ::
  "ppo_controller \<Rightarrow> rng \<Rightarrow> nat \<Rightarrow> real list \<Rightarrow> real list \<Rightarrow> real list \<Rightarrow> 'a list \<Rightarrow> real
    \<Rightarrow> error + (real \<times> nat)" where
  "ppo_update Q u k old_log_probs old_values rewards actions epsilon =
     (case PPOController_forward Q u k (length actions) of
        Inl e \<Rightarrow> Inl e
      | Inr (new_actions, new_log_probs, new_values, k') \<Rightarrow>
          (case broadcast2 (-) new_log_probs old_log_probs of
             Inl e \<Rightarrow> Inl e
           | Inr log_ratio \<Rightarrow>
               (let ratios = map exp log_ratio;
                    advantages = map (\<lambda>v. map (\<lambda>r. r - v) rewards) old_values
                in case mul_1d_2d ratios (length rewards) advantages of
                     Inl e \<Rightarrow> Inl e
                   | Inr surr1 \<Rightarrow>
                       (case mul_1d_2d (map (\<lambda>x. clamp x (1 - epsilon) (1 + epsilon)) ratios)
                               (length rewards) advantages of
                          Inl e \<Rightarrow> Inl e
                        | Inr surr2 \<Rightarrow>
                            (case mean_t (concat (map2 (map2 min) surr1 surr2)) of
                               Inl e \<Rightarrow> Inl e
                             | Inr m \<Rightarrow>
                                 (let actor_loss = - m in
                                  case mean_t (concat (map (\<lambda>v. map (\<lambda>r. (v - r)\<^sup>2) rewards)
                                                       new_values)) of
                                    Inl e \<Rightarrow> Inl e
                                  | Inr critic_loss \<Rightarrow>
                                      Inr (actor_loss + 0.5 * critic_loss, k')))))))"

text \<open>
  \<^verbatim>\<open>
  for _ in range(10):  # Sample 10 architectures
      actions, log_probs, values = ppo_controller(len(network.cells))
      with torch.no_grad():
          acc = evaluate(network, actions, val_data)
      rewards.append(acc)
      old_log_probs_list.append(log_probs)
      old_values_list.append(values)
      actions_list.append(actions)
  \<close>
  \<open>num_cells\<close> is \<open>len(network.cells)\<close>.
\<close>

fun ppo_sample_loop ::
  "ppo_controller \<Rightarrow> ('x \<Rightarrow> nat list list \<Rightarrow> nat list) \<Rightarrow> ('x \<times> nat list) list \<Rightarrow> rng
    \<Rightarrow> nat \<Rightarrow> nat
    \<Rightarrow> real list \<times> real list list \<times> real list list \<times> nat list list list \<times> nat
    \<Rightarrow> error + (real list \<times> real list list \<times> real list list \<times> nat list list list \<times> nat)"
  where
  "ppo_sample_loop Q model val_data u num_cells 0 s = Inr s"
| "ppo_sample_loop Q model val_data u num_cells (Suc n)
     (rewards, old_log_probs_list, old_values_list, actions_list, k) =
     (case PPOController_forward Q u k num_cells of
        Inl e \<Rightarrow> Inl e
      | Inr (actions, log_probs, vals, k') \<Rightarrow>
          (case evaluate model actions val_data of
             Inl e \<Rightarrow> Inl e
           | Inr acc \<Rightarrow>
               ppo_sample_loop Q model val_data u num_cells n
                 (rewards @ [acc], old_log_probs_list @ [log_probs],
                  old_values_list @ [vals], actions_list @ [actions], k')))"

text \<open>
  \<^verbatim>\<open>
  for _ in range(5):  # PPO update steps
      ppo_optim.zero_grad()
      loss = ppo_update(ppo_controller, old_log_probs, old_values, rewards, actions_list)
      loss.backward()
      ppo_optim.step()
  \<close>
  The optimiser is outside the model: \<open>opt_step Q k\<close> stands for the parameters that
  \<open>loss.backward(); ppo_optim.step()\<close> leave, for the loss computed from the parameters
  \<open>Q\<close> at the position \<open>k\<close> of the random source.
\<close>

fun ppo_update_loop ::
  "(ppo_controller \<Rightarrow> nat \<Rightarrow> ppo_controller) \<Rightarrow> rng \<Rightarrow> real list \<Rightarrow> real list \<Rightarrow> real list
    \<Rightarrow> 'a list \<Rightarrow> nat \<Rightarrow> ppo_controller \<times> nat \<Rightarrow> error + (ppo_controller \<times> nat)" where
  "ppo_update_loop opt_step u old_log_probs old_values rewards actions_list 0 s = Inr s"
| "ppo_update_loop opt_step u old_log_probs old_values rewards actions_list (Suc n) (Q, k) =
     (case ppo_update Q u k old_log_probs old_values rewards actions_list (0.2) of
        Inl e \<Rightarrow> Inl e
      | Inr (loss, k') \<Rightarrow>
          ppo_update_loop opt_step u old_log_probs old_values rewards actions_list n
            (opt_step Q k, k'))"

text \<open>
  The controller phase of an epoch of \<open>train_enas_ppo\<close>. \<open>torch.cat\<close> of the ten
  trajectories is the concatenation of the lists; it raises on an empty list.
\<close>

definition ppo_controller_phase ::
  "ppo_controller \<Rightarrow> (ppo_controller \<Rightarrow> nat \<Rightarrow> ppo_controller)
    \<Rightarrow> ('x \<Rightarrow> nat list list \<Rightarrow> nat list) \<Rightarrow> ('x \<times> nat list) list \<Rightarrow> rng \<Rightarrow> nat \<Rightarrow> nat
    \<Rightarrow> error + (ppo_controller \<times> nat)" where
  "ppo_controller_phase Q opt_step model val_data u k num_cells =
     (case ppo_sample_loop Q model val_data u num_cells 10 ([], [], [], [], k) of
        Inl e \<Rightarrow> Inl e
      | Inr (rewards, old_log_probs_list, old_values_list, actions_list, k') \<Rightarrow>
          if old_log_probs_list = [] \<or> old_values_list = [] then Inl CatEmptyError
          else ppo_update_loop opt_step u (concat old_log_probs_list) (concat old_values_list)
                 rewards actions_list 5 (Q, k'))"

text \<open>
  The shared-weight phase of an epoch of \<open>train_enas_ppo\<close>: one architecture for each
  training batch, drawn with \<open>len(network.cells)\<close> cells, and a step of the network, which
  is outside the model.
\<close>

fun ppo_shared_phase ::
  "ppo_controller \<Rightarrow> ('net \<Rightarrow> 'x \<times> nat list \<Rightarrow> nat list list \<Rightarrow> 'net) \<Rightarrow> rng \<Rightarrow> nat
    \<Rightarrow> ('x \<times> nat list) list \<Rightarrow> 'net \<times> nat \<Rightarrow> error + ('net \<times> nat)" where
  "ppo_shared_phase Q shared_step u num_cells [] s = Inr s"
| "ppo_shared_phase Q shared_step u num_cells (xy # train_data) (net, k) =
     (case PPOController_forward Q u k num_cells of
        Inl e \<Rightarrow> Inl e
      | Inr (actions, log_probs, vals, k') \<Rightarrow>
          ppo_shared_phase Q shared_step u num_cells train_data
            (shared_step net xy actions, k'))"

text \<open>
  What the specification asks of a PPO update instead: the log-probabilities of the
  actions that were sampled, under the current parameters.
\<close>

definition rescored_log_probs :: "ppo_controller \<Rightarrow> nat list list \<Rightarrow> real list" where
  "rescored_log_probs Q cells =
     map (\<lambda>j. ln (softmax (ppo_logits Q (ppo_init Q) j) ! (concat cells ! j)))
       [0..<length (concat cells)]"

section \<open>Recipe 8: \<open>UncertaintyAwareController\<close>\<close>

record ua_controller =
  ua_hidden_size :: nat
  ua_lstm :: "real list \<Rightarrow> real list \<times> real list \<Rightarrow> real list \<times> real list"
  ua_actor :: "real list \<Rightarrow> real list"
  critic_mean :: "real list \<Rightarrow> real"
  critic_std :: "real list \<Rightarrow> real"

text \<open>
  The tensors are float32. The value head is where the range of float32 decides what
  the code does, so the operations of the value head are rounded at the two ends of the
  range: a result of magnitude at most \<open>f32_tiny\<close>, half the smallest positive float32
  \<open>2^-149\<close>, is 0; a result of at least \<open>f32_huge\<close>, half a unit in the last place
  above the largest float32, is \<open>inf\<close>. Inside the range, and everywhere else in the
  model, arithmetic is exact.
\<close>

definition f32_tiny :: real where
  "f32_tiny = 1 / 2 ^ 150"

definition f32_huge :: real where
  "f32_huge = 2 ^ 127 * (2 - 1 / 2 ^ 24)"

datatype f32 = Fin real | PosInf

text \<open>\<open>torch.exp\<close> on a float32: it underflows to 0.0 and overflows to \<open>inf\<close>.\<close>

definition torch_exp :: "real \<Rightarrow> f32" where
  "torch_exp x =
     (if exp x \<le> f32_tiny then Fin 0
      else if f32_huge \<le> exp x then PosInf
      else Fin (exp x))"

text \<open>
  \<open>dist.Normal(mean, std)\<close>: the constructor of torch checks that the scale is positive
  and raises \<open>ValueError\<close> otherwise; \<open>inf\<close> is positive.
\<close>

record normal =
  loc :: real
  scale :: f32

definition Normal :: "real \<Rightarrow> f32 \<Rightarrow> error + normal" where
  "Normal mean std =
     (case std of
        Fin s \<Rightarrow> if 0 < s then Inr \<lparr>loc = mean, scale = std\<rparr> else Inl ValueError
      | PosInf \<Rightarrow> Inr \<lparr>loc = mean, scale = std\<rparr>)"

text \<open>A scale that the constructor accepts.\<close>

fun positive_scale :: "f32 \<Rightarrow> bool" where
  "positive_scale (Fin s) = (0 < s)"
| "positive_scale PosInf = True"

text \<open>
  \<open>log_prob\<close> is torch's formula:
  \<^verbatim>\<open>
  var = self.scale ** 2
  log_scale = self.scale.log()
  return -((value - self.loc) ** 2) / (2 * var) - log_scale - math.log(math.sqrt(2 * math.pi))
  \<close>
  With an infinite scale \<open>log_scale\<close> is \<open>inf\<close>; when \<open>var\<close> underflows to 0 the quotient
  is \<open>inf\<close> or \<open>nan\<close>; and the quotient can overflow. The result is then not a finite
  number, and nothing is raised.
\<close>

definition log_prob :: "normal \<Rightarrow> real \<Rightarrow> error + real" where
  "log_prob d v =
     (case scale d of
        PosInf \<Rightarrow> Inl NonFiniteResult
      | Fin s \<Rightarrow>
          if s\<^sup>2 \<le> f32_tiny then Inl NonFiniteResult
          else if f32_huge \<le> (v - loc d)\<^sup>2 / (2 * s\<^sup>2) then Inl NonFiniteResult
          else Inr (- ((v - loc d)\<^sup>2) / (2 * s\<^sup>2) - ln s - ln (sqrt (2 * pi))))"


text \<open>
  The inner loop of \<open>UncertaintyAwareController.forward\<close>, on the state
  \<open>((h, c), cell_actions, log_probs, value_dists)\<close>:
  \<^verbatim>\<open>
  mean = self.critic_mean(h)
  std = torch.exp(self.critic_std(h))
  value_dists.append(dist.Normal(mean, std))
  \<close>
\<close>

fun ua_node_loop ::
  "ua_controller \<Rightarrow> rng \<Rightarrow> nat
    \<Rightarrow> (real list \<times> real list) \<times> nat list \<times> real list \<times> normal list \<times> nat
    \<Rightarrow> error + ((real list \<times> real list) \<times> nat list \<times> real list \<times> normal list \<times> nat)" where
  "ua_node_loop U u 0 s = Inr s"
| "ua_node_loop U u (Suc n) (hc, cell_actions, log_probs, value_dists, k) =
     (let x = zeros NUM_OPS;
          hc' = ua_lstm U x hc;
          logits = ua_actor U (fst hc')
      in case decide logits (u k) of
           Inl e \<Rightarrow> Inl e
         | Inr (action, lp) \<Rightarrow>
             (let mean = critic_mean U (fst hc');
                  std = torch_exp (critic_std U (fst hc'))
              in case Normal mean std of
                   Inl e \<Rightarrow> Inl e
                 | Inr d \<Rightarrow>
                     ua_node_loop U u n
                       (hc', cell_actions @ [action], log_probs @ [lp], value_dists @ [d],
                        Suc k)))"

fun ua_cell_loop ::
  "ua_controller \<Rightarrow> rng \<Rightarrow> nat
    \<Rightarrow> (real list \<times> real list) \<times> nat list list \<times> real list \<times> normal list \<times> nat
    \<Rightarrow> error + ((real list \<times> real list) \<times> nat list list \<times> real list \<times> normal list \<times> nat)"
  where
  "ua_cell_loop U u 0 s = Inr s"
| "ua_cell_loop U u (Suc m) (hc, actions, log_probs, value_dists, k) =
     (case ua_node_loop U u (NUM_NODES * 3) (hc, [], log_probs, value_dists, k) of
        Inl e \<Rightarrow> Inl e
      | Inr (hc', cell_actions, log_probs', value_dists', k') \<Rightarrow>
          ua_cell_loop U u m (hc', actions @ [cell_actions], log_probs', value_dists', k'))"

text \<open>\<open>value_dists\<close> is returned as the Python list it is; only \<open>log_probs\<close> is stacked.\<close>

definition UncertaintyAwareController_forward ::
  "ua_controller \<Rightarrow> rng \<Rightarrow> nat \<Rightarrow> nat
    \<Rightarrow> error + (nat list list \<times> real list \<times> normal list \<times> nat)" where
  "UncertaintyAwareController_forward U u k num_cells =
     (let hc = (zeros (ua_hidden_size U), zeros (ua_hidden_size U)) in
      case ua_cell_loop U u num_cells (hc, [], [], [], k) of
        Inl e \<Rightarrow> Inl e
      | Inr (hc', actions, log_probs, value_dists, k') \<Rightarrow>
          if log_probs = [] then Inl StackEmptyError
          else Inr (actions, log_probs, value_dists, k'))"

section \<open>Recipe 8: the controller update of \<open>train_uncertainty_aware_enas\<close>\<close>

text \<open>
  \<open>actor_loss -= lp * advantage.detach()\<close>: \<open>actor_loss\<close> starts as the Python integer 0
  (\<open>None\<close> here) and becomes the tensor \<open>0 - term\<close>, of shape (1, T); from then on the
  subtraction is in place, so the term must have T entries, or one.
\<close>

definition sub_inplace :: "real list option \<Rightarrow> real list \<Rightarrow> error + real list" where
  "sub_inplace acc term =
     (case acc of
        None \<Rightarrow> Inr (map uminus term)
      | Some a \<Rightarrow>
          if length term = length a then Inr (map2 (-) a term)
          else if length term = 1 then Inr (map (\<lambda>x. x - hd term) a)
          else Inl SizeMismatchError)"

text \<open>
  \<open>critic_loss -= vd[0].log_prob(r)\<close>: \<open>critic_loss\<close> starts as the integer 0 as well and
  becomes a tensor with one entry. A log-probability that is not finite raises nothing:
  the entry stops being finite, and stays so.
\<close>

definition sub_entry :: "(error + real) option \<Rightarrow> error + real \<Rightarrow> error + real" where
  "sub_entry acc x =
     (case acc of
        None \<Rightarrow> (case x of Inl e \<Rightarrow> Inl e | Inr y \<Rightarrow> Inr (0 - y))
      | Some (Inl e) \<Rightarrow> Inl e
      | Some (Inr c) \<Rightarrow> (case x of Inl e \<Rightarrow> Inl e | Inr y \<Rightarrow> Inr (c - y)))"

text \<open>
  \<^verbatim>\<open>
  for r, lp, vd in zip(rewards, log_probs_list, value_dists_list):
      advantage = r - vd[0].mean
      actor_loss -= lp * advantage.detach()
      critic_loss -= vd[0].log_prob(r)
  \<close>
  \<open>vd[0].mean\<close> and \<open>vd[0].log_prob(r)\<close> have shape (1, 1) and are kept as their entry.
\<close>

fun ua_loss_loop ::
  "(real \<times> real list \<times> normal list) list \<Rightarrow> real list option \<times> (error + real) option
    \<Rightarrow> error + (real list option \<times> (error + real) option)" where
  "ua_loss_loop [] acc = Inr acc"
| "ua_loss_loop ((r, lp, vd) # rest) (actor_loss, critic_loss) =
     (case vd of
        [] \<Rightarrow> Inl IndexError
      | d # ds \<Rightarrow>
          (let advantage = r - loc d in
           case sub_inplace actor_loss (map (\<lambda>l. l * advantage) lp) of
             Inl e \<Rightarrow> Inl e
           | Inr actor_loss' \<Rightarrow>
               ua_loss_loop rest
                 (Some actor_loss', Some (sub_entry critic_loss (log_prob d r)))))"

text \<open>
  \<^verbatim>\<open>
  loss = actor_loss.mean() + 0.5 * critic_loss.mean()
  \<close>
  A Python integer has no method \<open>mean\<close>.
\<close>

definition ua_loss ::
  "real list \<Rightarrow> real list list \<Rightarrow> normal list list \<Rightarrow> error + real" where
  "ua_loss rewards log_probs_list value_dists_list =
     (case ua_loss_loop (zip rewards (zip log_probs_list value_dists_list)) (None, None) of
        Inl e \<Rightarrow> Inl e
      | Inr (actor_loss, critic_loss) \<Rightarrow>
          (case actor_loss of
             None \<Rightarrow> Inl AttributeError
           | Some a \<Rightarrow>
               (case mean_t a of
                  Inl e \<Rightarrow> Inl e
                | Inr m \<Rightarrow>
                    (case critic_loss of
                       None \<Rightarrow> Inl AttributeError
                     | Some (Inl e) \<Rightarrow> Inl e
                     | Some (Inr c) \<Rightarrow> Inr (m + 0.5 * c)))))"

text \<open>The ten samples of the controller phase, and the phase.\<close>

fun ua_sample_loop ::
  "ua_controller \<Rightarrow> ('x \<Rightarrow> nat list list \<Rightarrow> nat list) \<Rightarrow> ('x \<times> nat list) list \<Rightarrow> rng
    \<Rightarrow> nat \<Rightarrow> nat
    \<Rightarrow> real list \<times> real list list \<times> normal list list \<times> nat
    \<Rightarrow> error + (real list \<times> real list list \<times> normal list list \<times> nat)" where
  "ua_sample_loop U model val_data u num_cells 0 s = Inr s"
| "ua_sample_loop U model val_data u num_cells (Suc n)
     (rewards, log_probs_list, value_dists_list, k) =
     (case UncertaintyAwareController_forward U u k num_cells of
        Inl e \<Rightarrow> Inl e
      | Inr (actions, log_probs, value_dists, k') \<Rightarrow>
          (case evaluate model actions val_data of
             Inl e \<Rightarrow> Inl e
           | Inr acc \<Rightarrow>
               ua_sample_loop U model val_data u num_cells n
                 (rewards @ [acc], log_probs_list @ [log_probs],
                  value_dists_list @ [value_dists], k')))"

definition ua_controller_phase ::
  "ua_controller \<Rightarrow> ('x \<Rightarrow> nat list list \<Rightarrow> nat list) \<Rightarrow> ('x \<times> nat list) list \<Rightarrow> rng
    \<Rightarrow> nat \<Rightarrow> nat \<Rightarrow> error + real" where
  "ua_controller_phase U model val_data u k num_cells =
     (case ua_sample_loop U model val_data u num_cells 10 ([], [], [], k) of
        Inl e \<Rightarrow> Inl e
      | Inr (rewards, log_probs_list, value_dists_list, k') \<Rightarrow>
          if log_probs_list = [] then Inl CatEmptyError
          else ua_loss rewards log_probs_list value_dists_list)"

text \<open>The shared-weight phase of an epoch, as in the other two training loops.\<close>

fun ua_shared_phase ::
  "ua_controller \<Rightarrow> ('net \<Rightarrow> 'x \<times> nat list \<Rightarrow> nat list list \<Rightarrow> 'net) \<Rightarrow> rng \<Rightarrow> nat
    \<Rightarrow> ('x \<times> nat list) list \<Rightarrow> 'net \<times> nat \<Rightarrow> error + ('net \<times> nat)" where
  "ua_shared_phase U shared_step u num_cells [] s = Inr s"
| "ua_shared_phase U shared_step u num_cells (xy # train_data) (net, k) =
     (case UncertaintyAwareController_forward U u k num_cells of
        Inl e \<Rightarrow> Inl e
      | Inr (actions, log_probs, value_dists, k') \<Rightarrow>
          ua_shared_phase U shared_step u num_cells train_data
            (shared_step net xy actions, k'))"






section \<open>Concrete parameters for the examples\<close>

text \<open>
  Controllers whose parameters are all zero: the recurrent cell keeps the zero state and
  every head returns its (zero) bias. The random source \<open>half_draws\<close> returns 1/2 at
  every position.
\<close>

definition zero_controller :: controller where
  "zero_controller = \<lparr>hidden_size = 2, lstm = (\<lambda>x hc. hc), linear = (\<lambda>h. [0, 0, 0])\<rparr>"

definition zero_ppo_controller :: ppo_controller where
  "zero_ppo_controller =
     \<lparr>ppo_hidden_size = 2, ppo_lstm = (\<lambda>x hc. hc), actor = (\<lambda>h. [0, 0, 0, 0, 0]),
      critic = (\<lambda>h. 0)\<rparr>"

definition half_draws :: rng where
  "half_draws = (\<lambda>k. 1 / 2)"

text \<open>
  A mocked network that predicts the classes 0 and 1 for a batch of two examples, and a
  validation set of one batch whose two labels are 0: every architecture scores 1/2.
\<close>

definition fixed_predict :: "unit \<Rightarrow> unit \<Rightarrow> 'a \<Rightarrow> nat list" where
  "fixed_predict net x actions = [0, 1]"

definition fixed_val_data :: "(unit \<times> nat list) list" where
  "fixed_val_data = [((), [0, 0])]"

text \<open>
  Two uncertainty-aware controllers with zero recurrent cell and zero action head: one
  whose value distribution is the standard Gaussian, one whose raw standard-deviation
  output is the large negative number -1000. \<open>keep_net\<close> is a step of the network that
  changes nothing.
\<close>

definition unit_ua_controller :: ua_controller where
  "unit_ua_controller =
     \<lparr>ua_hidden_size = 2, ua_lstm = (\<lambda>x hc. hc), ua_actor = (\<lambda>h. [0, 0, 0, 0, 0]),
      critic_mean = (\<lambda>h. 0), critic_std = (\<lambda>h. 0)\<rparr>"

definition sharp_ua_controller :: ua_controller where
  "sharp_ua_controller =
     \<lparr>ua_hidden_size = 2, ua_lstm = (\<lambda>x hc. hc), ua_actor = (\<lambda>h. [0, 0, 0, 0, 0]),
      critic_mean = (\<lambda>h. 0), critic_std = (\<lambda>h. - 1000)\<rparr>"

text \<open>
  A PPO controller whose action head prefers operation 0 (probabilities 1/3, 1/6, 1/6,
  1/6, 1/6), and a random source whose first twelve draws are 0 and whose later draws
  are 1/2: the first trajectory chooses operation 0 at every step, a second one chooses
  operation 2.
\<close>

definition biased_ppo_controller :: ppo_controller where
  "biased_ppo_controller =
     \<lparr>ppo_hidden_size = 2, ppo_lstm = (\<lambda>x hc. hc), actor = (\<lambda>h. [ln 2, 0, 0, 0, 0]),
      critic = (\<lambda>h. 0)\<rparr>"

definition zero_then_half_draws :: rng where
  "zero_then_half_draws = (\<lambda>k. if k < 12 then 0 else 1 / 2)"

definition keep_net :: "unit \<Rightarrow> unit \<times> nat list \<Rightarrow> 'a \<Rightarrow> unit" where
  "keep_net net xy actions = net"

section \<open>Properties of the samplers\<close>

lemma length_softmax: "length (softmax xs) = length xs"
  by (simp add: softmax_def)

lemma multinomial_less: "ps \<noteq> [] \<Longrightarrow> multinomial ps u < length ps"
  by (induction ps u rule: multinomial.induct) auto

lemma decide_Inr:
  "decide logits d = Inr (a, lp) \<Longrightarrow>
     a = multinomial (softmax logits) d \<and> lp = ln (softmax logits ! a) \<and> a < length logits"
  using multinomial_less [of "softmax logits" d]
  by (auto simp: decide_def Let_def length_softmax split: if_splits)

lemma decide_total:
  "logits \<noteq> [] \<Longrightarrow> \<exists>a lp. decide logits d = Inr (a, lp)"
  by (simp add: decide_def Let_def softmax_def)

lemma controller_hidden_Suc:
  "controller_hidden P (lstm P (zeros NUM_OPS_basic) hc) j = controller_hidden P hc (Suc j)"
  by (simp add: controller_hidden_def funpow_swap1)

lemma controller_logits_shift:
  "controller_logits P (lstm P (zeros NUM_OPS_basic) hc) j = controller_logits P hc (Suc j)"
  by (simp add: controller_logits_def controller_hidden_def funpow_swap1)

lemma upt_0_Suc_shift: "map g [0..<Suc n] = g 0 # map (\<lambda>j. g (Suc j)) [0..<n]"
  by (simp add: upt_conv_Cons map_Suc_upt [symmetric] del: upt_Suc)

lemma controller_loop_char:
  "controller_loop P u n (hc, acts, lps, k) = Inr (hc', acts', lps', k') \<Longrightarrow>
     hc' = controller_hidden P hc n \<and> k' = k + n \<and>
     acts' = acts @ map (\<lambda>j. multinomial (softmax (controller_logits P hc j)) (u (k + j))) [0..<n] \<and>
     lps' = lps @ map (\<lambda>j. ln (softmax (controller_logits P hc j) !
                 multinomial (softmax (controller_logits P hc j)) (u (k + j)))) [0..<n]"
proof (induction n arbitrary: hc acts lps k)
  case 0
  then show ?case by (simp add: controller_hidden_def)
next
  case (Suc n)
  let ?hc = "lstm P (zeros NUM_OPS_basic) hc"
  from Suc.prems obtain a lp where
    d: "decide (linear P (fst ?hc)) (u k) = Inr (a, lp)" and
    r: "controller_loop P u n (?hc, acts @ [a], lps @ [lp], Suc k) = Inr (hc', acts', lps', k')"
    by (auto simp: Let_def split: sum.splits)
  have l0: "controller_logits P hc 0 = linear P (fst ?hc)"
    by (simp add: controller_logits_def controller_hidden_def)
  from decide_Inr [OF d] have a: "a = multinomial (softmax (controller_logits P hc 0)) (u k)"
    and lp: "lp = ln (softmax (controller_logits P hc 0) ! a)" by (simp_all add: l0)
  from Suc.IH [OF r] show ?case
    unfolding upt_0_Suc_shift
    by (simp add: controller_hidden_Suc controller_logits_shift a lp)
qed

lemma ppo_hidden_Suc:
  "ppo_hidden Q (ppo_lstm Q (zeros NUM_OPS) hc) j = ppo_hidden Q hc (Suc j)"
  by (simp add: ppo_hidden_def funpow_swap1)

lemma ppo_hidden_add:
  "ppo_hidden Q (ppo_hidden Q hc a) b = ppo_hidden Q hc (a + b)"
proof -
  have "(ppo_lstm Q (zeros NUM_OPS) ^^ (b + a)) hc
          = (ppo_lstm Q (zeros NUM_OPS) ^^ b) ((ppo_lstm Q (zeros NUM_OPS) ^^ a) hc)"
    by (simp add: funpow_add)
  then show ?thesis by (simp add: ppo_hidden_def add.commute)
qed

lemma ppo_logits_add:
  "ppo_logits Q (ppo_hidden Q hc a) j = ppo_logits Q hc (a + j)"
  by (simp add: ppo_logits_def ppo_hidden_add)

lemma ppo_action_add:
  "ppo_action Q u (k + a) (ppo_hidden Q hc a) j = ppo_action Q u k hc (a + j)"
  by (simp add: ppo_action_def ppo_logits_add add.assoc)

lemma ppo_hidden_1: "ppo_lstm Q (zeros NUM_OPS) hc = ppo_hidden Q hc 1"
  by (simp add: ppo_hidden_def)

lemma ppo_node_loop_char:
  "ppo_node_loop Q u n (hc, ca, lps, vals, k) = Inr (hc', ca', lps', vals', k') \<Longrightarrow>
     hc' = ppo_hidden Q hc n \<and> k' = k + n \<and>
     ca' = ca @ map (ppo_action Q u k hc) [0..<n] \<and>
     lps' = lps @ map (\<lambda>j. ln (softmax (ppo_logits Q hc j) ! ppo_action Q u k hc j)) [0..<n] \<and>
     vals' = vals @ map (\<lambda>j. critic Q (fst (ppo_hidden Q hc (Suc j)))) [0..<n]"
proof (induction n arbitrary: hc ca lps vals k)
  case 0
  then show ?case by (simp add: ppo_hidden_def)
next
  case (Suc n)
  let ?hc = "ppo_lstm Q (zeros NUM_OPS) hc"
  from Suc.prems obtain a lp where
    d: "decide (actor Q (fst ?hc)) (u k) = Inr (a, lp)" and
    r: "ppo_node_loop Q u n (?hc, ca @ [a], lps @ [lp], vals @ [critic Q (fst ?hc)], Suc k)
          = Inr (hc', ca', lps', vals', k')"
    by (auto simp: Let_def split: sum.splits)
  have l0: "ppo_logits Q hc 0 = actor Q (fst ?hc)"
    by (simp add: ppo_logits_def ppo_hidden_def)
  have h1: "?hc = ppo_hidden Q hc 1"
    by (simp add: ppo_hidden_def)
  have h1': "ppo_hidden Q hc (Suc 0) = ?hc"
    by (simp add: ppo_hidden_def)
  from decide_Inr [OF d] have a: "a = ppo_action Q u k hc 0"
    and lp: "lp = ln (softmax (ppo_logits Q hc 0) ! a)" by (simp_all add: l0 ppo_action_def)
  have sh: "\<And>j. ppo_action Q u (Suc k) ?hc j = ppo_action Q u k hc (Suc j)"
    using ppo_action_add [of Q u k 1 hc] by (simp add: h1)
  have sl: "\<And>j. ppo_logits Q ?hc j = ppo_logits Q hc (Suc j)"
    using ppo_logits_add [of Q hc 1] by (simp add: h1)
  from Suc.IH [OF r] show ?case
    unfolding upt_0_Suc_shift
    by (simp add: ppo_hidden_Suc sh sl a lp h1')
qed

lemma map_upt_add: "map g [0..<a + b] = map g [0..<a] @ map (\<lambda>j. g (a + j)) [0..<b]"
  by (induction b) simp_all

lemma ppo_cell_loop_char:
  "ppo_cell_loop Q u m (hc, acts, lps, vals, k) = Inr (hc', acts', lps', vals', k') \<Longrightarrow>
     hc' = ppo_hidden Q hc (m * (NUM_NODES * 3)) \<and> k' = k + m * (NUM_NODES * 3) \<and>
     length acts' = length acts + m \<and>
     (\<forall>c \<in> set acts'. c \<in> set acts \<or> length c = NUM_NODES * 3) \<and>
     concat acts' = concat acts @ map (ppo_action Q u k hc) [0..<m * (NUM_NODES * 3)] \<and>
     lps' = lps @ map (\<lambda>j. ln (softmax (ppo_logits Q hc j) ! ppo_action Q u k hc j))
                    [0..<m * (NUM_NODES * 3)] \<and>
     vals' = vals @ map (\<lambda>j. critic Q (fst (ppo_hidden Q hc (Suc j)))) [0..<m * (NUM_NODES * 3)]"
proof (induction m arbitrary: hc acts lps vals k)
  case 0
  then show ?case by (simp add: ppo_hidden_def)
next
  case (Suc m)
  let ?T = "NUM_NODES * 3"
  from Suc.prems obtain hc1 ca lps1 vals1 k1 where
    n: "ppo_node_loop Q u ?T (hc, [], lps, vals, k) = Inr (hc1, ca, lps1, vals1, k1)" and
    r: "ppo_cell_loop Q u m (hc1, acts @ [ca], lps1, vals1, k1) = Inr (hc', acts', lps', vals', k')"
    by (auto split: sum.splits)
  note N = ppo_node_loop_char [OF n]
  have hc1: "hc1 = ppo_hidden Q hc ?T" and k1: "k1 = k + ?T"
    and ca: "ca = map (ppo_action Q u k hc) [0..<?T]"
    and lps1: "lps1 = lps @ map (\<lambda>j. ln (softmax (ppo_logits Q hc j) ! ppo_action Q u k hc j)) [0..<?T]"
    and vals1: "vals1 = vals @ map (\<lambda>j. critic Q (fst (ppo_hidden Q hc (Suc j)))) [0..<?T]"
    using N by simp_all
  have sh: "\<And>j. ppo_hidden Q (ppo_hidden Q hc ?T) (Suc j) = ppo_hidden Q hc (Suc (?T + j))"
    by (simp add: ppo_hidden_add)
  note R = Suc.IH [OF r, unfolded hc1 k1 ppo_action_add ppo_logits_add ppo_hidden_add sh]
  have e: "Suc m * ?T = ?T + m * ?T" by simp
  have lca: "length ca = ?T" unfolding ca by simp
  have c1: "hc' = ppo_hidden Q hc (Suc m * ?T)"
    using R unfolding e by simp
  have c2: "k' = k + Suc m * ?T"
    using R unfolding e by simp
  have c3: "length acts' = length acts + Suc m"
    using R by simp
  have c4: "\<forall>c \<in> set acts'. c \<in> set acts \<or> length c = ?T"
  proof
    fix c assume "c \<in> set acts'"
    with R [THEN conjunct2, THEN conjunct2, THEN conjunct2, THEN conjunct1]
    have "c \<in> set (acts @ [ca]) \<or> length c = ?T" by (rule bspec)
    then show "c \<in> set acts \<or> length c = ?T" using lca by auto
  qed
  have c5: "concat acts' = concat acts @ map (ppo_action Q u k hc) [0..<Suc m * ?T]"
    using R unfolding e map_upt_add by (simp add: ca)
  have c6: "lps' = lps @ map (\<lambda>j. ln (softmax (ppo_logits Q hc j) ! ppo_action Q u k hc j))
                    [0..<Suc m * ?T]"
    using R unfolding e map_upt_add by (simp add: lps1)
  have c7: "vals' = vals @ map (\<lambda>j. critic Q (fst (ppo_hidden Q hc (Suc j)))) [0..<Suc m * ?T]"
    using R unfolding e map_upt_add by (simp add: vals1)
  show ?case by (intro conjI c1 c2 c3 c4 c5 c6 c7)
qed

lemma controller_loop_total:
  "\<forall>h. linear P h \<noteq> [] \<Longrightarrow> \<exists>s'. controller_loop P u n (hc, acts, lps, k) = Inr s'"
proof (induction n arbitrary: hc acts lps k)
  case 0
  then show ?case by simp
next
  case (Suc n)
  let ?hc = "lstm P (zeros NUM_OPS_basic) hc"
  from Suc.prems have "linear P (fst ?hc) \<noteq> []" by simp
  from decide_total [OF this] obtain a lp where
    d: "decide (linear P (fst ?hc)) (u k) = Inr (a, lp)" by blast
  from Suc.IH [OF Suc.prems] show ?case
    by (simp add: Let_def d)
qed

lemma ppo_node_loop_total:
  "\<forall>h. actor Q h \<noteq> [] \<Longrightarrow> \<exists>s'. ppo_node_loop Q u n (hc, ca, lps, vals, k) = Inr s'"
proof (induction n arbitrary: hc ca lps vals k)
  case 0
  then show ?case by simp
next
  case (Suc n)
  let ?hc = "ppo_lstm Q (zeros NUM_OPS) hc"
  from Suc.prems have "actor Q (fst ?hc) \<noteq> []" by simp
  from decide_total [OF this] obtain a lp where
    d: "decide (actor Q (fst ?hc)) (u k) = Inr (a, lp)" by blast
  from Suc.IH [OF Suc.prems] show ?case
    by (simp add: Let_def d)
qed

lemma ppo_cell_loop_total:
  "\<forall>h. actor Q h \<noteq> [] \<Longrightarrow> \<exists>s'. ppo_cell_loop Q u m (hc, acts, lps, vals, k) = Inr s'"
proof (induction m arbitrary: hc acts lps vals k)
  case 0
  then show ?case by simp
next
  case (Suc m)
  from ppo_node_loop_total [OF Suc.prems, of u "NUM_NODES * 3" hc "[]" lps vals k]
  obtain hc1 ca lps1 vals1 k1 where
    n: "ppo_node_loop Q u (NUM_NODES * 3) (hc, [], lps, vals, k) = Inr (hc1, ca, lps1, vals1, k1)"
    by (metis prod_cases5)
  from Suc.IH [OF Suc.prems, of hc1 "acts @ [ca]" lps1 vals1 k1] show ?case
    by (simp add: n)
qed

lemma multinomial_softmax_less:
  "logits \<noteq> [] \<Longrightarrow> multinomial (softmax logits) d < length logits"
  using multinomial_less [of "softmax logits" d] by (simp add: softmax_def)

lemma Controller_forward_shape:
  assumes n: "0 < n" and wf: "\<forall>h. length (linear P h) = NUM_OPS_basic"
  shows "\<exists>actions log_probs k'.
           Controller_forward P u k n = Inr (actions, log_probs, k') \<and>
           length actions = n \<and> length log_probs = n \<and>
           (\<forall>a \<in> set actions. a < NUM_OPS_basic)"
proof -
  have ne: "\<forall>h. linear P h \<noteq> []"
  proof
    fix h from wf have "length (linear P h) = NUM_OPS_basic" by simp
    then show "linear P h \<noteq> []" by (auto simp: NUM_OPS_basic_def)
  qed
  from controller_loop_total [OF ne, of u n "controller_init P" "[]" "[]" k]
  obtain hc' acts lps k' where
    l: "controller_loop P u n (controller_init P, [], [], k) = Inr (hc', acts, lps, k')"
    by (metis prod_cases4)
  note C = controller_loop_char [OF l]
  have la: "length acts = n" and ll: "length lps = n" using C by simp_all
  have "lps \<noteq> []" using ll n by auto
  then have f: "Controller_forward P u k n = Inr (acts, lps, k')"
    using l by (simp add: Controller_forward_def controller_init_def)
  have r: "\<forall>a \<in> set acts. a < NUM_OPS_basic"
  proof
    fix a assume "a \<in> set acts"
    then obtain j where
      "a = multinomial (softmax (controller_logits P (controller_init P) j)) (u (k + j))"
      using C by auto
    moreover have "controller_logits P (controller_init P) j \<noteq> []"
      using ne by (simp add: controller_logits_def)
    moreover have "length (controller_logits P (controller_init P) j) = NUM_OPS_basic"
      using wf by (simp add: controller_logits_def)
    ultimately show "a < NUM_OPS_basic"
      using multinomial_softmax_less by metis
  qed
  from f la ll r show ?thesis by blast
qed

lemma PPOController_forward_shape:
  assumes n: "0 < n" and wf: "\<forall>h. length (actor Q h) = NUM_OPS"
  shows "\<exists>actions log_probs vals k'.
           PPOController_forward Q u k n = Inr (actions, log_probs, vals, k') \<and>
           length actions = n \<and> (\<forall>c \<in> set actions. length c = NUM_NODES * 3) \<and>
           length (concat actions) = n * NUM_NODES * 3 \<and>
           length log_probs = n * NUM_NODES * 3 \<and>
           length vals = n * NUM_NODES * 3 \<and>
           (\<forall>a \<in> set (concat actions). a < NUM_OPS)"
proof -
  have ne: "\<forall>h. actor Q h \<noteq> []"
  proof
    fix h from wf have "length (actor Q h) = NUM_OPS" by simp
    then show "actor Q h \<noteq> []" by (auto simp: NUM_OPS_def)
  qed
  from ppo_cell_loop_total [OF ne, of u n "ppo_init Q" "[]" "[]" "[]" k]
  obtain hc' acts lps vals k' where
    l: "ppo_cell_loop Q u n (ppo_init Q, [], [], [], k) = Inr (hc', acts, lps, vals, k')"
    by (metis prod_cases5)
  note C = ppo_cell_loop_char [OF l]
  have la: "length acts = n" and ll: "length lps = n * NUM_NODES * 3"
    and lv: "length vals = n * NUM_NODES * 3"
    and lc: "length (concat acts) = n * NUM_NODES * 3"
    and cs: "\<forall>c \<in> set acts. length c = NUM_NODES * 3"
    using C by (simp_all add: mult.assoc)
  have pos: "0 < n * NUM_NODES * 3" using n by (simp add: NUM_NODES_def)
  have "lps \<noteq> []" "vals \<noteq> []" using ll lv pos by auto
  then have f: "PPOController_forward Q u k n = Inr (acts, lps, vals, k')"
    using l by (simp add: PPOController_forward_def ppo_init_def)
  have r: "\<forall>a \<in> set (concat acts). a < NUM_OPS"
  proof
    fix a assume "a \<in> set (concat acts)"
    then obtain j where "a = ppo_action Q u k (ppo_init Q) j"
      using C by auto
    moreover have "ppo_logits Q (ppo_init Q) j \<noteq> []"
      using ne by (simp add: ppo_logits_def)
    moreover have "length (ppo_logits Q (ppo_init Q) j) = NUM_OPS"
      using wf by (simp add: ppo_logits_def)
    ultimately show "a < NUM_OPS"
      using multinomial_softmax_less unfolding ppo_action_def by metis
  qed
  from f la ll lv lc cs r show ?thesis by blast
qed

lemma decide_zero3: "decide [0, 0, 0] (1 / 2) = Inr (1, ln (1 / 3))"
  by (simp add: decide_def softmax_def Let_def)

lemma decide_zero5: "decide [0, 0, 0, 0, 0] (1 / 2) = Inr (2, ln (1 / 5))"
  by (simp add: decide_def softmax_def Let_def)

lemma zero_controller_forward:
  "Controller_forward zero_controller half_draws 0 2 = Inr ([1, 1], [ln (1 / 3), ln (1 / 3)], 2)"
  by (simp add: Controller_forward_def zero_controller_def half_draws_def decide_zero3
      numeral_2_eq_2)

lemma zero_ppo_node_loop:
  "ppo_node_loop zero_ppo_controller half_draws (NUM_NODES * 3) (hc, [], lps, vals, k)
     = Inr (hc, replicate 12 2, lps @ replicate 12 (ln (1 / 5)), vals @ replicate 12 0, k + 12)"
  by (simp add: zero_ppo_controller_def half_draws_def decide_zero5 NUM_NODES_def
      eval_nat_numeral)

lemma zero_ppo_forward:
  "PPOController_forward zero_ppo_controller half_draws 0 1
     = Inr ([replicate 12 2], replicate 12 (ln (1 / 5)), replicate 12 0, 12)"
  by (simp add: PPOController_forward_def zero_ppo_node_loop)

text \<open>
  Claim C4. For every \<open>num_cells > 0\<close> and every controller whose action head has
  \<open>NUM_OPS\<close> outputs, one forward pass returns: for the per-layer controller,
  \<open>num_cells\<close> actions (so \<open>NUM_LAYERS\<close> actions for the call \<open>controller(NUM_LAYERS)\<close>
  that the training loop makes); for the cell-based controller, \<open>num_cells\<close> cells of
  \<open>NUM_NODES * 3\<close> actions each, \<open>num_cells * NUM_NODES * 3\<close> actions in all. Every action
  index is below \<open>NUM_OPS\<close>.
\<close>

theorem forward_action_count_and_range:
  assumes n: "0 < num_cells"
    and wfP: "\<forall>h. length (linear P h) = NUM_OPS_basic"
    and wfQ: "\<forall>h. length (actor Q h) = NUM_OPS"
  shows "(\<exists>actions log_probs k'.
            Controller_forward P u k NUM_LAYERS = Inr (actions, log_probs, k') \<and>
            length actions = NUM_LAYERS \<and> (\<forall>a \<in> set actions. a < NUM_OPS_basic)) \<and>
         (\<exists>actions log_probs k'.
            Controller_forward P u k num_cells = Inr (actions, log_probs, k') \<and>
            length actions = num_cells \<and> (\<forall>a \<in> set actions. a < NUM_OPS_basic)) \<and>
         (\<exists>actions log_probs vals k'.
            PPOController_forward Q u k num_cells = Inr (actions, log_probs, vals, k') \<and>
            length actions = num_cells \<and>
            (\<forall>cell \<in> set actions. length cell = NUM_NODES * 3) \<and>
            length (concat actions) = num_cells * NUM_NODES * 3 \<and>
            (\<forall>a \<in> set (concat actions). a < NUM_OPS))"
proof (intro conjI)
  have "0 < NUM_LAYERS" by (simp add: NUM_LAYERS_def)
  from Controller_forward_shape [OF this wfP, of u k]
  show "\<exists>actions log_probs k'.
            Controller_forward P u k NUM_LAYERS = Inr (actions, log_probs, k') \<and>
            length actions = NUM_LAYERS \<and> (\<forall>a \<in> set actions. a < NUM_OPS_basic)"
    by blast
next
  from Controller_forward_shape [OF n wfP, of u k]
  show "\<exists>actions log_probs k'.
            Controller_forward P u k num_cells = Inr (actions, log_probs, k') \<and>
            length actions = num_cells \<and> (\<forall>a \<in> set actions. a < NUM_OPS_basic)"
    by blast
next
  from PPOController_forward_shape [OF n wfQ, of u k]
  show "\<exists>actions log_probs vals k'.
            PPOController_forward Q u k num_cells = Inr (actions, log_probs, vals, k') \<and>
            length actions = num_cells \<and>
            (\<forall>cell \<in> set actions. length cell = NUM_NODES * 3) \<and>
            length (concat actions) = num_cells * NUM_NODES * 3 \<and>
            (\<forall>a \<in> set (concat actions). a < NUM_OPS)"
    by blast
qed

theorem forward_action_count_and_range_witness:
  "0 < (2::nat) \<and>
   (\<forall>h. length (linear zero_controller h) = NUM_OPS_basic) \<and>
   (\<forall>h. length (actor zero_ppo_controller h) = NUM_OPS) \<and>
   (\<exists>actions log_probs k'.
      Controller_forward zero_controller half_draws 0 NUM_LAYERS = Inr (actions, log_probs, k') \<and>
      length actions = NUM_LAYERS \<and> (\<forall>a \<in> set actions. a < NUM_OPS_basic)) \<and>
   (\<exists>actions log_probs k'.
      Controller_forward zero_controller half_draws 0 2 = Inr (actions, log_probs, k') \<and>
      length actions = 2 \<and> (\<forall>a \<in> set actions. a < NUM_OPS_basic)) \<and>
   (\<exists>actions log_probs vals k'.
      PPOController_forward zero_ppo_controller half_draws 0 2
        = Inr (actions, log_probs, vals, k') \<and>
      length actions = 2 \<and>
      (\<forall>cell \<in> set actions. length cell = NUM_NODES * 3) \<and>
      length (concat actions) = 2 * NUM_NODES * 3 \<and>
      (\<forall>a \<in> set (concat actions). a < NUM_OPS))"
proof -
  have h1: "0 < (2::nat)" by simp
  have h2: "\<forall>h. length (linear zero_controller h) = NUM_OPS_basic"
    by (simp add: zero_controller_def NUM_OPS_basic_def)
  have h3: "\<forall>h. length (actor zero_ppo_controller h) = NUM_OPS"
    by (simp add: zero_ppo_controller_def NUM_OPS_def)
  from forward_action_count_and_range [OF h1 h2 h3, of half_draws 0] h1 h2 h3
  show ?thesis by (intro conjI) simp_all
qed

text \<open>
  Claim C5. At every decision step of a sample, the action is the one drawn from
  \<open>softmax logits\<close> and the returned log-probability is \<open>ln (softmax logits ! action)\<close>
  for the logits of that very step, recomputed here from the parameters alone.
\<close>

theorem log_prob_is_log_softmax_of_chosen_action:
  "(Controller_forward P u k n = Inr (actions, log_probs, k') \<longrightarrow>
      length log_probs = length actions \<and>
      (\<forall>j < length actions.
         actions ! j = multinomial (softmax (controller_logits P (controller_init P) j)) (u (k + j)) \<and>
         log_probs ! j = ln (softmax (controller_logits P (controller_init P) j) ! (actions ! j)))) \<and>
   (PPOController_forward Q v i m = Inr (cells, lps, vals, i') \<longrightarrow>
      length lps = length (concat cells) \<and>
      (\<forall>j < length (concat cells).
         concat cells ! j = multinomial (softmax (ppo_logits Q (ppo_init Q) j)) (v (i + j)) \<and>
         lps ! j = ln (softmax (ppo_logits Q (ppo_init Q) j) ! (concat cells ! j))))"
proof (intro conjI impI)
  assume "Controller_forward P u k n = Inr (actions, log_probs, k')"
  then obtain hc' where
    l: "controller_loop P u n (controller_init P, [], [], k) = Inr (hc', actions, log_probs, k')"
    by (auto simp: Controller_forward_def controller_init_def split: sum.splits if_splits)
  note C = controller_loop_char [OF l]
  have a: "actions = map (\<lambda>j. multinomial (softmax (controller_logits P (controller_init P) j))
                              (u (k + j))) [0..<n]"
    and lp: "log_probs = map (\<lambda>j. ln (softmax (controller_logits P (controller_init P) j) !
                 multinomial (softmax (controller_logits P (controller_init P) j)) (u (k + j))))
               [0..<n]"
    using C by simp_all
  show "length log_probs = length actions" by (simp add: a lp)
  show "\<forall>j < length actions.
         actions ! j = multinomial (softmax (controller_logits P (controller_init P) j)) (u (k + j)) \<and>
         log_probs ! j = ln (softmax (controller_logits P (controller_init P) j) ! (actions ! j))"
    by (simp add: a lp)
next
  assume "PPOController_forward Q v i m = Inr (cells, lps, vals, i')"
  then obtain hc' where
    l: "ppo_cell_loop Q v m (ppo_init Q, [], [], [], i) = Inr (hc', cells, lps, vals, i')"
    by (auto simp: PPOController_forward_def ppo_init_def split: sum.splits if_splits)
  note C = ppo_cell_loop_char [OF l]
  have a: "concat cells = map (ppo_action Q v i (ppo_init Q)) [0..<m * (NUM_NODES * 3)]"
    and lp: "lps = map (\<lambda>j. ln (softmax (ppo_logits Q (ppo_init Q) j) !
                                ppo_action Q v i (ppo_init Q) j)) [0..<m * (NUM_NODES * 3)]"
    using C by simp_all
  show "length lps = length (concat cells)" by (simp add: a lp)
  show "\<forall>j < length (concat cells).
         concat cells ! j = multinomial (softmax (ppo_logits Q (ppo_init Q) j)) (v (i + j)) \<and>
         lps ! j = ln (softmax (ppo_logits Q (ppo_init Q) j) ! (concat cells ! j))"
    unfolding a lp by (simp add: ppo_action_def)
qed

theorem log_prob_is_log_softmax_of_chosen_action_witness:
  "Controller_forward zero_controller half_draws 0 2 = Inr ([1, 1], [ln (1 / 3), ln (1 / 3)], 2) \<and>
   PPOController_forward zero_ppo_controller half_draws 0 1
     = Inr ([replicate 12 2], replicate 12 (ln (1 / 5)), replicate 12 0, 12) \<and>
   [1, 1] ! 1 = multinomial (softmax (controller_logits zero_controller
                   (controller_init zero_controller) 1)) (half_draws (0 + 1)) \<and>
   [ln (1 / 3), ln (1 / 3)] ! 1
     = ln (softmax (controller_logits zero_controller (controller_init zero_controller) 1)
            ! ([1, 1] ! 1)) \<and>
   concat [replicate 12 2] ! 11 = multinomial (softmax (ppo_logits zero_ppo_controller
                   (ppo_init zero_ppo_controller) 11)) (half_draws (0 + 11)) \<and>
   replicate 12 (ln (1 / 5)) ! 11
     = ln (softmax (ppo_logits zero_ppo_controller (ppo_init zero_ppo_controller) 11)
            ! (concat [replicate 12 2] ! 11))"
proof -
  note T = log_prob_is_log_softmax_of_chosen_action
    [of zero_controller half_draws 0 2 "[1, 1]" "[ln (1 / 3), ln (1 / 3)]" 2
        zero_ppo_controller half_draws 0 1 "[replicate 12 2]" "replicate 12 (ln (1 / 5))"
        "replicate 12 0" 12]
  from T [THEN conjunct1] zero_controller_forward
  have a: "\<forall>j < length [1, 1::nat].
         [1, 1] ! j = multinomial (softmax (controller_logits zero_controller
                         (controller_init zero_controller) j)) (half_draws (0 + j)) \<and>
         [ln (1 / 3), ln (1 / 3)] ! j
           = ln (softmax (controller_logits zero_controller (controller_init zero_controller) j)
                  ! ([1, 1] ! j))"
    by blast
  from T [THEN conjunct2] zero_ppo_forward
  have b: "\<forall>j < length (concat [replicate 12 (2::nat)]).
         concat [replicate 12 2] ! j = multinomial (softmax (ppo_logits zero_ppo_controller
                         (ppo_init zero_ppo_controller) j)) (half_draws (0 + j)) \<and>
         replicate 12 (ln (1 / 5)) ! j
           = ln (softmax (ppo_logits zero_ppo_controller (ppo_init zero_ppo_controller) j)
                  ! (concat [replicate 12 2] ! j))"
    by blast
  have "(1::nat) < length [1, 1::nat]" by simp
  with a have a1:
    "[1, 1] ! 1 = multinomial (softmax (controller_logits zero_controller
                     (controller_init zero_controller) 1)) (half_draws (0 + 1)) \<and>
     [ln (1 / 3), ln (1 / 3)] ! 1
       = ln (softmax (controller_logits zero_controller (controller_init zero_controller) 1)
              ! ([1, 1] ! 1))"
    by blast
  have "(11::nat) < length (concat [replicate 12 (2::nat)])" by simp
  with b have b1:
    "concat [replicate 12 2] ! 11 = multinomial (softmax (ppo_logits zero_ppo_controller
                     (ppo_init zero_ppo_controller) 11)) (half_draws (0 + 11)) \<and>
     replicate 12 (ln (1 / 5)) ! 11
       = ln (softmax (ppo_logits zero_ppo_controller (ppo_init zero_ppo_controller) 11)
              ! (concat [replicate 12 2] ! 11))"
    by blast
  from zero_controller_forward zero_ppo_forward a1 b1 show ?thesis by blast
qed

section \<open>Properties of the uncertainty-aware sampler\<close>

lemma decide_Inl: "decide logits d = Inl e \<Longrightarrow> e = MultinomialError"
  by (auto simp: decide_def Let_def split: if_splits)






text \<open>
  The ends of the float32 range at the value head: \<open>exp raw\<close> is at most \<open>f32_tiny\<close> for
  every \<open>raw\<close> below -150 (the float32 result is 0.0 from about -104 on), while
  \<open>exp (-90)\<close> is still a positive float32 whose square is not.
\<close>

lemma two_pow_150_le_exp:
  assumes "150 \<le> (x::real)"
  shows "2 ^ 150 \<le> exp x"
proof -
  have two: "(2::real) \<le> exp 1"
    using exp_ge_add_one_self [of "1::real"] by simp
  have "(2::real) ^ 150 \<le> exp 1 ^ 150"
    using two by (intro power_mono) simp_all
  also have "\<dots> = exp (150 :: real)"
    using exp_of_nat_mult [of 150 "1::real"] by simp
  also have "\<dots> \<le> exp x"
    using assms by simp
  finally show ?thesis .
qed

lemma exp_tiny:
  assumes "x \<le> - 150"
  shows "exp (x::real) \<le> f32_tiny"
proof -
  from assms have "150 \<le> - x" by simp
  then have le: "(2::real) ^ 150 \<le> exp (- x)" by (rule two_pow_150_le_exp)
  have "exp x = 1 / exp (- x)"
    by (simp add: exp_minus inverse_eq_divide)
  also have "\<dots> \<le> 1 / 2 ^ 150"
    using le by (intro divide_left_mono) simp_all
  finally show ?thesis by (simp add: f32_tiny_def)
qed

lemma exp_minus_1000_tiny: "exp (- 1000 :: real) \<le> f32_tiny"
  by (rule exp_tiny) simp

lemma torch_exp_underflow: "torch_exp (- 1000) = Fin 0"
  using exp_minus_1000_tiny by (simp add: torch_exp_def)

lemma torch_exp_zero: "torch_exp 0 = Fin 1"
  by (simp add: torch_exp_def f32_tiny_def f32_huge_def)

lemma torch_exp_underflow_below: "raw \<le> - 150 \<Longrightarrow> torch_exp raw = Fin 0"
  using exp_tiny [of raw] by (simp add: torch_exp_def)

lemma exp_90_less: "exp (90::real) < 2 ^ 150"
proof -
  have "exp (90::real) = exp 1 ^ 90"
    using exp_of_nat_mult [of 90 "1::real"] by simp
  also have "\<dots> \<le> 3 ^ 90"
    using exp_le by (intro power_mono) simp_all
  also have "\<dots> < (2::real) ^ 150" by simp
  finally show ?thesis .
qed

lemma exp_minus_90_above_tiny: "f32_tiny < exp (- 90 :: real)"
proof -
  have "1 / 2 ^ 150 < 1 / exp (90::real)"
    using exp_90_less by (intro divide_strict_left_mono) simp_all
  then show ?thesis
    by (simp add: f32_tiny_def exp_minus inverse_eq_divide)
qed

lemma torch_exp_minus_90: "torch_exp (- 90) = Fin (exp (- 90))"
proof -
  have a: "\<not> exp (- 90 :: real) \<le> f32_tiny"
    using exp_minus_90_above_tiny by simp
  have e: "exp (- 90 :: real) \<le> 1" by simp
  have h: "1 < f32_huge" by (simp add: f32_huge_def)
  from e h have "exp (- 90 :: real) < f32_huge" by (rule le_less_trans)
  then have b: "\<not> f32_huge \<le> exp (- 90 :: real)" by simp
  show ?thesis by (simp add: torch_exp_def a b)
qed

lemma log_prob_minus_90:
  "log_prob \<lparr>loc = m, scale = Fin (exp (- 90))\<rparr> r = Inl NonFiniteResult"
proof -
  have "(exp (- 90 :: real))\<^sup>2 = exp (- 180)"
    using exp_of_nat_mult [of 2 "- 90 :: real"] by simp
  also have "\<dots> \<le> f32_tiny" by (rule exp_tiny) simp
  finally show ?thesis by (simp add: log_prob_def)
qed

section \<open>Properties of \<open>evaluate\<close> and of the sampling loop of \<open>train_enas\<close>\<close>

lemma evaluate_loop_total_n:
  "evaluate_loop model actions data (c, t) = Inr (c', t') \<Longrightarrow> t' = t + num_examples data"
proof (induction data arbitrary: c t)
  case Nil
  then show ?case by (simp add: num_examples_def)
next
  case (Cons xy data)
  obtain x y where xy: "xy = (x, y)" by (cases xy)
  from Cons.prems obtain n where
    r: "evaluate_loop model actions data (c + n, t + length y) = Inr (c', t')"
    by (auto simp: xy split: sum.splits)
  from Cons.IH [OF r] show ?case by (simp add: xy num_examples_def)
qed

lemma evaluate_no_examples:
  assumes "num_examples data = 0"
  shows "\<exists>e. evaluate model actions data = Inl e"
proof (cases "evaluate_loop model actions data (0, 0)")
  case (Inl e)
  then show ?thesis by (simp add: evaluate_def)
next
  case (Inr ct)
  obtain c t where ct: "ct = (c, t)" by (cases ct)
  from evaluate_loop_total_n [OF Inr [unfolded ct]] assms have "t = 0" by simp
  then show ?thesis using Inr by (simp add: evaluate_def ct)
qed



lemma evaluate_fixed: "evaluate (fixed_predict ()) actions fixed_val_data = Inr (1 / 2)"
  by (simp add: evaluate_def fixed_predict_def fixed_val_data_def count_equal_def)

lemma zero_controller_forward_layers:
  "Controller_forward zero_controller half_draws k NUM_LAYERS
     = Inr ([1, 1, 1, 1], [ln (1 / 3), ln (1 / 3), ln (1 / 3), ln (1 / 3)], k + 4)"
  by (simp add: Controller_forward_def zero_controller_def half_draws_def decide_zero3
      NUM_LAYERS_def eval_nat_numeral)

lemma zero_enas_sample_loop:
  "enas_sample_loop zero_controller (fixed_predict ()) fixed_val_data half_draws 10 ([], None, 0)
     = Inr (replicate 10 (1 / 2),
            Some ([1, 1, 1, 1], [ln (1 / 3), ln (1 / 3), ln (1 / 3), ln (1 / 3)]), 40)"
  by (simp add: zero_controller_forward_layers evaluate_fixed eval_nat_numeral)

section \<open>The loss of the uncertainty-aware update in closed form\<close>













section \<open>Properties of the PPO sampling loop and update\<close>

lemma PPOController_forward_Inr:
  assumes "PPOController_forward Q u k n = Inr (actions, log_probs, vals, k')"
  shows "k' = k + n * (NUM_NODES * 3) \<and> length actions = n \<and>
         length log_probs = n * (NUM_NODES * 3) \<and> length vals = n * (NUM_NODES * 3) \<and> 0 < n"
proof -
  from assms obtain hc' where
    l: "ppo_cell_loop Q u n (ppo_init Q, [], [], [], k) = Inr (hc', actions, log_probs, vals, k')"
    and ne: "log_probs \<noteq> []"
    by (auto simp: PPOController_forward_def ppo_init_def split: sum.splits if_splits)
  note C = ppo_cell_loop_char [OF l]
  have c1: "k' = k + n * (NUM_NODES * 3)" using C [THEN conjunct2, THEN conjunct1] .
  have c2: "length actions = n"
    using C [THEN conjunct2, THEN conjunct2, THEN conjunct1] by simp
  have lp: "log_probs = [] @ map (\<lambda>j. ln (softmax (ppo_logits Q (ppo_init Q) j) !
                ppo_action Q u k (ppo_init Q) j)) [0..<n * (NUM_NODES * 3)]"
    using C by blast
  have vl: "vals = [] @ map (\<lambda>j. critic Q (fst (ppo_hidden Q (ppo_init Q) (Suc j))))
                [0..<n * (NUM_NODES * 3)]"
    using C by blast
  have c3: "length log_probs = n * (NUM_NODES * 3)" unfolding lp by simp
  have c4: "length vals = n * (NUM_NODES * 3)" unfolding vl by simp
  have c5: "0 < n" using c3 ne by (cases n) auto
  show ?thesis by (intro conjI c1 c2 c3 c4 c5)
qed

lemma ppo_sample_loop_char:
  "ppo_sample_loop Q model val_data u nc n (rewards, lpl, vl, al, k)
     = Inr (rewards', lpl', vl', al', k')
   \<Longrightarrow> length rewards' = length rewards + n \<and> length lpl' = length lpl + n \<and>
       length vl' = length vl + n \<and> length al' = length al + n \<and>
       (0 < n \<longrightarrow> 0 < nc) \<and>
       length (concat lpl') = length (concat lpl) + n * (nc * (NUM_NODES * 3)) \<and>
       length (concat vl') = length (concat vl) + n * (nc * (NUM_NODES * 3))"
proof (induction n arbitrary: rewards lpl vl al k)
  case 0
  then show ?case by simp
next
  case (Suc n)
  obtain a lp v k1 where
    f: "PPOController_forward Q u k nc = Inr (a, lp, v, k1)"
  proof (cases "PPOController_forward Q u k nc")
    case (Inl e)
    with Suc.prems show ?thesis by simp
  next
    case (Inr x)
    then show ?thesis using that by (cases x) auto
  qed
  obtain acc where ev: "evaluate model a val_data = Inr acc"
  proof (cases "evaluate model a val_data")
    case (Inl e)
    with Suc.prems f show ?thesis by simp
  next
    case (Inr x)
    then show ?thesis using that by simp
  qed
  have r: "ppo_sample_loop Q model val_data u nc n
             (rewards @ [acc], lpl @ [lp], vl @ [v], al @ [a], k1)
          = Inr (rewards', lpl', vl', al', k')"
    using Suc.prems by (simp add: f ev)
  note F = PPOController_forward_Inr [OF f]
  note R = Suc.IH [OF r]
  have nc: "0 < nc" using F by blast
  have llp: "length lp = nc * (NUM_NODES * 3)" using F by blast
  have lv: "length v = nc * (NUM_NODES * 3)" using F by blast
  have c1: "length rewards' = length rewards + Suc n"
    using R [THEN conjunct1] by simp
  have c2: "length lpl' = length lpl + Suc n"
    using R [THEN conjunct2, THEN conjunct1] by simp
  have c3: "length vl' = length vl + Suc n"
    using R [THEN conjunct2, THEN conjunct2, THEN conjunct1] by simp
  have c4: "length al' = length al + Suc n"
    using R [THEN conjunct2, THEN conjunct2, THEN conjunct2, THEN conjunct1] by simp
  have c5: "0 < Suc n \<longrightarrow> 0 < nc" using nc by simp
  have c6: "length (concat lpl') = length (concat lpl) + Suc n * (nc * (NUM_NODES * 3))"
    using R [THEN conjunct2, THEN conjunct2, THEN conjunct2, THEN conjunct2, THEN conjunct2,
             THEN conjunct1]
    by (simp add: llp)
  have c7: "length (concat vl') = length (concat vl) + Suc n * (nc * (NUM_NODES * 3))"
    using R [THEN conjunct2, THEN conjunct2, THEN conjunct2, THEN conjunct2, THEN conjunct2,
             THEN conjunct2]
    by (simp add: lv)
  show ?case by (intro conjI c1 c2 c3 c4 c5 c6 c7)
qed

lemma broadcast2_mismatch:
  "length a \<noteq> length b \<Longrightarrow> length a \<noteq> 1 \<Longrightarrow> length b \<noteq> 1 \<Longrightarrow>
     broadcast2 f a b = Inl SizeMismatchError"
  by (simp add: broadcast2_def)

lemma five_Suc: "(5::nat) = Suc 4"
  by simp

lemma zero_ppo_forward_two:
  "PPOController_forward zero_ppo_controller half_draws k (Suc (Suc 0))
     = Inr ([replicate 12 2, replicate 12 2], replicate 24 (ln (1 / 5)), replicate 24 0, k + 24)"
proof -
  have r: "\<And>x::real. replicate 12 x @ replicate 12 x = replicate 24 x"
    by (simp add: replicate_add [symmetric])
  show ?thesis
    by (simp add: PPOController_forward_def zero_ppo_node_loop r)
qed

lemma zero_ppo_sample_loop_gen:
  "ppo_sample_loop zero_ppo_controller (fixed_predict ()) fixed_val_data half_draws
       (Suc (Suc 0)) n (rs, lpl, vl, al, k)
     = Inr (rs @ replicate n (1 / 2), lpl @ replicate n (replicate 24 (ln (1 / 5))),
            vl @ replicate n (replicate 24 0),
            al @ replicate n [replicate 12 2, replicate 12 2], k + n * 24)"
  by (induction n arbitrary: rs lpl vl al k)
     (simp_all add: zero_ppo_forward_two evaluate_fixed)

lemma zero_ppo_sample_loop:
  "ppo_sample_loop zero_ppo_controller (fixed_predict ()) fixed_val_data half_draws 2 10
       ([], [], [], [], 0)
     = Inr (replicate 10 (1 / 2), replicate 10 (replicate 24 (ln (1 / 5))),
            replicate 10 (replicate 24 0),
            replicate 10 [replicate 12 2, replicate 12 2], 240)"
  using zero_ppo_sample_loop_gen [of 10 "[]" "[]" "[]" "[]" 0]
  by (simp add: numeral_2_eq_2)

lemma decide_biased_zero: "decide [ln 2, 0, 0, 0, 0] 0 = Inr (0, ln (1 / 3))"
  by (simp add: decide_def softmax_def Let_def)

lemma decide_biased_half: "decide [ln 2, 0, 0, 0, 0] (1 / 2) = Inr (2, ln (1 / 6))"
  by (simp add: decide_def softmax_def Let_def)

lemma biased_ppo_forward_first:
  "PPOController_forward biased_ppo_controller zero_then_half_draws 0 (Suc 0)
     = Inr ([replicate 12 0], replicate 12 (ln (1 / 3)), replicate 12 0, 12)"
  by (simp add: PPOController_forward_def biased_ppo_controller_def zero_then_half_draws_def
      decide_biased_zero NUM_NODES_def eval_nat_numeral)

lemma biased_ppo_forward_second:
  "PPOController_forward biased_ppo_controller zero_then_half_draws 12 (Suc 0)
     = Inr ([replicate 12 2], replicate 12 (ln (1 / 6)), replicate 12 0, 24)"
  by (simp add: PPOController_forward_def biased_ppo_controller_def zero_then_half_draws_def
      decide_biased_half NUM_NODES_def eval_nat_numeral)

lemma concat_replicate_replicate:
  "concat (replicate n (replicate m x)) = replicate (n * m) x"
  by (induction n) (simp_all add: replicate_add)

lemma concat_replicate_single: "concat (replicate n [x]) = replicate n x"
  by (induction n) simp_all

lemma mean_t_replicate: "0 < n \<Longrightarrow> mean_t (replicate n x) = Inr x"
  by (simp add: mean_t_def sum_list_replicate)

lemma map2_replicate:
  "map2 f (replicate n x) (replicate n y) = replicate n (f x y)"
  by simp

lemma rescored_biased:
  "rescored_log_probs biased_ppo_controller [replicate 12 0] = replicate 12 (ln (1 / 3))"
proof -
  have "map (\<lambda>j. ln (softmax (ppo_logits biased_ppo_controller
                 (ppo_init biased_ppo_controller) j) ! (replicate 12 0 ! j))) [0..<12]
          = map (\<lambda>j. ln (1 / 3)) [0..<12]"
    by (rule map_cong)
       (simp_all add: ppo_logits_def biased_ppo_controller_def softmax_def)
  then show ?thesis
    by (simp add: rescored_log_probs_def map_replicate_const)
qed

lemma ratio_half: "exp (ln (1 / 6) - ln (1 / 3)) = (1 / 2 :: real)"
proof -
  have "exp (ln (1 / 6) - ln (1 / 3)) = exp (ln (1 / 6 :: real)) / exp (ln (1 / 3))"
    by (rule exp_diff)
  also have "\<dots> = (1 / 6) / (1 / 3)"
    by (simp only: exp_ln zero_less_divide_1_iff zero_less_numeral)
  finally show ?thesis by simp
qed

lemma ppo_update_biased:
  "ppo_update biased_ppo_controller zero_then_half_draws 12 (replicate 12 (ln (1 / 3)))
       (replicate 12 0) [1] [replicate 12 (0::nat)] (1 / 5) = Inr (0, 24)"
proof -
  have b: "broadcast2 (-) (replicate 12 (ln (1 / 6))) (replicate 12 (ln (1 / 3)))
             = Inr (replicate 12 (ln (1 / 6) - ln (1 / 3)))"
    by (simp add: broadcast2_def)
  have m1: "mul_1d_2d (replicate 12 (1 / 2)) (Suc 0) (replicate 12 [1])
              = Inr (replicate 12 (replicate 12 (1 / 2)))"
    by (simp add: mul_1d_2d_def)
  have c: "clamp (1 / 2) (4 / 5) (6 / 5) = 4 / 5"
    by (simp add: clamp_def)
  have m2: "mul_1d_2d (replicate 12 (4 / 5)) (Suc 0) (replicate 12 [1])
              = Inr (replicate 12 (replicate 12 (4 / 5)))"
    by (simp add: mul_1d_2d_def)
  have mn: "map2 (map2 min) (replicate 12 (replicate 12 (1 / 2 :: real)))
               (replicate 12 (replicate 12 (4 / 5)))
              = replicate 12 (replicate 12 (1 / 2))"
    by simp
  show ?thesis
    by (simp add: ppo_update_def biased_ppo_forward_second b ratio_half m1 c m2 mn
        concat_replicate_replicate concat_replicate_single mean_t_replicate Let_def)
qed

section \<open>The uncertainty-aware sampler on concrete parameters\<close>

lemma unit_ua_node_loop:
  "ua_node_loop unit_ua_controller half_draws (NUM_NODES * 3) (hc, [], lps, vds, k)
     = Inr (hc, replicate 12 2, lps @ replicate 12 (ln (1 / 5)),
            vds @ replicate 12 \<lparr>loc = 0, scale = Fin 1\<rparr>, k + 12)"
  by (simp add: unit_ua_controller_def half_draws_def decide_zero5 NUM_NODES_def Normal_def
      torch_exp_zero Let_def eval_nat_numeral)

lemma unit_ua_forward:
  "UncertaintyAwareController_forward unit_ua_controller half_draws k (Suc 0)
     = Inr ([replicate 12 2], replicate 12 (ln (1 / 5)),
            replicate 12 \<lparr>loc = 0, scale = Fin 1\<rparr>, k + 12)"
  by (simp add: UncertaintyAwareController_forward_def unit_ua_node_loop)



lemma sharp_ua_node_loop:
  "ua_node_loop sharp_ua_controller half_draws (NUM_NODES * 3) (hc, ca, lps, vds, k)
     = Inl ValueError"
  by (simp add: sharp_ua_controller_def half_draws_def decide_zero5 NUM_NODES_def Normal_def
      torch_exp_underflow Let_def eval_nat_numeral)

lemma sharp_ua_forward:
  "UncertaintyAwareController_forward sharp_ua_controller half_draws k (Suc 0) = Inl ValueError"
  by (simp add: UncertaintyAwareController_forward_def sharp_ua_node_loop)

lemma sharp_ua_phase:
  "ua_controller_phase sharp_ua_controller model val_data half_draws k (Suc 0) = Inl ValueError"
proof -
  have "ua_sample_loop sharp_ua_controller model val_data half_draws (Suc 0) (Suc n)
          ([], [], [], k) = Inl ValueError" for n
    by (simp add: sharp_ua_forward)
  then have "ua_sample_loop sharp_ua_controller model val_data half_draws (Suc 0) 10
          ([], [], [], k) = Inl ValueError"
    by (simp only: eval_nat_numeral)
  then show ?thesis by (simp add: ua_controller_phase_def)
qed








section \<open>How \<open>evaluate\<close> and the phases fail without examples\<close>

lemma count_equal_Inl: "count_equal predicted y = Inl e \<Longrightarrow> e = SizeMismatchError"
  by (auto simp: count_equal_def split: if_splits)

lemma evaluate_loop_Inl:
  "evaluate_loop model actions data (c, t) = Inl e \<Longrightarrow> e = SizeMismatchError"
proof (induction data arbitrary: c t)
  case Nil
  then show ?case by simp
next
  case (Cons xy data)
  obtain x y where xy: "xy = (x, y)" by (cases xy)
  show ?case
  proof (cases "count_equal (model x actions) y")
    case (Inl e')
    with Cons.prems have "e = e'" by (simp add: xy)
    with count_equal_Inl [OF Inl] show ?thesis by simp
  next
    case (Inr n)
    with Cons.prems have "evaluate_loop model actions data (c + n, t + length y) = Inl e"
      by (simp add: xy)
    then show ?thesis by (rule Cons.IH)
  qed
qed

lemma evaluate_Inl:
  assumes "evaluate model actions data = Inl e"
  shows "e = ZeroDivisionError \<or> e = SizeMismatchError"
proof (cases "evaluate_loop model actions data (0, 0)")
  case (Inl e')
  with assms have "e = e'" by (simp add: evaluate_def)
  with evaluate_loop_Inl [OF Inl] show ?thesis by simp
next
  case (Inr ct)
  obtain c t where ct: "ct = (c, t)" by (cases ct)
  from assms Inr show ?thesis
    by (auto simp: evaluate_def ct split: if_splits)
qed

lemma evaluate_Nil: "evaluate model actions [] = Inl ZeroDivisionError"
  by (simp add: evaluate_def)

lemma evaluate_zero_examples:
  assumes "num_examples data = 0"
  shows "evaluate model actions data = Inl ZeroDivisionError \<or>
         evaluate model actions data = Inl SizeMismatchError"
proof -
  from evaluate_no_examples [OF assms, of model actions] obtain e where
    e: "evaluate model actions data = Inl e" by blast
  from evaluate_Inl [OF e] e show ?thesis by auto
qed

lemma evaluate_Inr_examples:
  assumes "evaluate model actions data = Inr acc"
  shows "0 < num_examples data"
proof (rule ccontr)
  assume "\<not> 0 < num_examples data"
  then have "num_examples data = 0" by simp
  from evaluate_no_examples [OF this, of model actions] assms show False by auto
qed

lemma ten_Suc: "(10::nat) = Suc 9"
  by simp

lemma enas_phase_evaluate_fails:
  assumes f: "Controller_forward P u k NUM_LAYERS = Inr (a, l, k1)"
    and e: "evaluate model a val_data = Inl err"
  shows "enas_controller_phase P model val_data u k reward = Inl err"
proof -
  have g: "\<And>n. enas_sample_loop P model val_data u (Suc n) ([], None, k) = Inl err"
    by (simp add: f e)
  have "enas_sample_loop P model val_data u 10 ([], None, k) = Inl err"
    unfolding ten_Suc by (rule g)
  then show ?thesis
    by (simp add: enas_controller_phase_def)
qed

lemma ppo_phase_evaluate_fails:
  assumes f: "PPOController_forward Q u k num_cells = Inr (a, l, v, k1)"
    and e: "evaluate model a val_data = Inl err"
  shows "ppo_controller_phase Q opt_step model val_data u k num_cells = Inl err"
proof -
  have g: "\<And>n. ppo_sample_loop Q model val_data u num_cells (Suc n) ([], [], [], [], k) = Inl err"
    by (simp add: f e)
  have "ppo_sample_loop Q model val_data u num_cells 10 ([], [], [], [], k) = Inl err"
    unfolding ten_Suc by (rule g)
  then show ?thesis
    by (simp add: ppo_controller_phase_def)
qed

lemma ua_phase_evaluate_fails:
  assumes f: "UncertaintyAwareController_forward U u k num_cells = Inr (a, l, v, k1)"
    and e: "evaluate model a val_data = Inl err"
  shows "ua_controller_phase U model val_data u k num_cells = Inl err"
proof -
  have g: "\<And>n. ua_sample_loop U model val_data u num_cells (Suc n) ([], [], [], k) = Inl err"
    by (simp add: f e)
  have "ua_sample_loop U model val_data u num_cells 10 ([], [], [], k) = Inl err"
    unfolding ten_Suc by (rule g)
  then show ?thesis
    by (simp add: ua_controller_phase_def)
qed

section \<open>The update of \<open>train_enas\<close> as a function of its variables\<close>









section \<open>The claims about the updates\<close>

text \<open>
  Claim C1. The claim asks for advantage = reward - mean of the batch, computed from the
  rewards of the current iteration, and loss = - mean (log_prob * advantage). The code
  reads the local variable \<open>reward\<close> before it is ever assigned: the update raises
  \<open>UnboundLocalError\<close> for every batch of rewards, so neither the controller phase nor
  the first epoch of \<open>train_enas\<close> ever returns.
\<close>

theorem train_enas_reward_unbound:
  "enas_controller_update None rewards loop_vars = Inl UnboundLocalError \<and>
   (\<forall>r. enas_controller_phase P model val_data u k None \<noteq> Inr r) \<and>
   (\<forall>r. train_enas_first_epoch P shared_step predict net train_data val_data u \<noteq> Inr r)"
proof -
  have a: "\<And>rewards loop_vars. enas_controller_update None rewards loop_vars = Inl UnboundLocalError"
    by (simp add: enas_controller_update_def)
  have b: "\<And>P model val_data u k r.
             enas_controller_phase P model (val_data :: ('c \<times> nat list) list) u k None \<noteq> Inr r"
    by (simp add: enas_controller_phase_def a split: sum.splits)
  have c: "\<forall>r. train_enas_first_epoch P shared_step predict net train_data val_data u \<noteq> Inr r"
    by (simp add: train_enas_first_epoch_def b split: sum.splits)
  from a b c show ?thesis by blast
qed

text \<open>
  Claim C2. The claim asks that \<open>ppo_update\<close> re-evaluate the originally sampled actions
  under the current parameters. The code runs the sampler again and takes the
  log-probabilities of the freshly drawn actions. With a controller that prefers
  operation 0, a first trajectory of twelve actions 0 (log-probability \<open>ln (1/3)\<close> each,
  also after re-scoring, so that the true ratio is 1 and the loss would be -1/2) and a
  fresh trajectory of twelve actions 2 (log-probability \<open>ln (1/6)\<close> each), the code uses
  the ratio 1/2 and returns the loss 0.
\<close>

theorem ppo_update_scores_fresh_actions:
  "PPOController_forward biased_ppo_controller zero_then_half_draws 0 1
     = Inr ([replicate 12 0], replicate 12 (ln (1 / 3)), replicate 12 0, 12) \<and>
   rescored_log_probs biased_ppo_controller [replicate 12 0] = replicate 12 (ln (1 / 3)) \<and>
   PPOController_forward biased_ppo_controller zero_then_half_draws 12
       (length [replicate 12 (0::nat)])
     = Inr ([replicate 12 2], replicate 12 (ln (1 / 6)), replicate 12 0, 24) \<and>
   replicate 12 (ln (1 / 6 :: real)) \<noteq> replicate 12 (ln (1 / 3)) \<and>
   ppo_update biased_ppo_controller zero_then_half_draws 12 (replicate 12 (ln (1 / 3)))
       (replicate 12 0) [1] [replicate 12 (0::nat)] (1 / 5) = Inr (0, 24)"
proof (intro conjI)
  show "PPOController_forward biased_ppo_controller zero_then_half_draws 0 1
     = Inr ([replicate 12 0], replicate 12 (ln (1 / 3)), replicate 12 0, 12)"
    using biased_ppo_forward_first by simp
  show "rescored_log_probs biased_ppo_controller [replicate 12 0] = replicate 12 (ln (1 / 3))"
    by (rule rescored_biased)
  show "PPOController_forward biased_ppo_controller zero_then_half_draws 12
       (length [replicate 12 (0::nat)])
     = Inr ([replicate 12 2], replicate 12 (ln (1 / 6)), replicate 12 0, 24)"
    using biased_ppo_forward_second by simp
  show "replicate 12 (ln (1 / 6 :: real)) \<noteq> replicate 12 (ln (1 / 3))"
    by (simp add: replicate_eq_replicate)
  show "ppo_update biased_ppo_controller zero_then_half_draws 12 (replicate 12 (ln (1 / 3)))
       (replicate 12 0) [1] [replicate 12 (0::nat)] (1 / 5) = Inr (0, 24)"
    by (rule ppo_update_biased)
qed




text \<open>
  Claim C6. The standard deviation is \<open>torch.exp\<close> of the raw output, computed in
  float32, and is not strictly positive for every raw output: at a raw output of -1000
  (as for every raw output below about -104) \<open>torch.exp\<close> underflows to exactly 0.0, the
  constructor of the distribution raises \<open>ValueError\<close>, and so do the forward pass and the
  controller phase. At a raw output of -90 the standard deviation is still a positive
  float32, but its square underflows to 0, and the log-density is not a finite number
  at any reward.
\<close>

theorem ua_std_underflows_to_zero:
  "torch_exp (critic_std sharp_ua_controller h) = Fin 0 \<and>
   \<not> positive_scale (torch_exp (critic_std sharp_ua_controller h)) \<and>
   Normal (critic_mean sharp_ua_controller h) (torch_exp (critic_std sharp_ua_controller h))
     = Inl ValueError \<and>
   UncertaintyAwareController_forward sharp_ua_controller half_draws 0 1 = Inl ValueError \<and>
   ua_controller_phase sharp_ua_controller model val_data half_draws 0 1 = Inl ValueError \<and>
   torch_exp (- 90) = Fin (exp (- 90)) \<and>
   log_prob \<lparr>loc = m, scale = torch_exp (- 90)\<rparr> r = Inl NonFiniteResult"
proof -
  have s: "critic_std sharp_ua_controller h = - 1000"
    by (simp add: sharp_ua_controller_def)
  have c1: "torch_exp (critic_std sharp_ua_controller h) = Fin 0"
    unfolding s by (rule torch_exp_underflow)
  have c2: "\<not> positive_scale (torch_exp (critic_std sharp_ua_controller h))"
    unfolding c1 by simp
  have c3: "Normal (critic_mean sharp_ua_controller h)
              (torch_exp (critic_std sharp_ua_controller h)) = Inl ValueError"
    unfolding c1 by (simp add: Normal_def)
  have c4: "UncertaintyAwareController_forward sharp_ua_controller half_draws 0 1
              = Inl ValueError"
    using sharp_ua_forward [of 0] by simp
  have c5: "ua_controller_phase sharp_ua_controller model val_data half_draws 0 1
              = Inl ValueError"
    using sharp_ua_phase [of model val_data 0] by simp
  have c7: "log_prob \<lparr>loc = m, scale = torch_exp (- 90)\<rparr> r = Inl NonFiniteResult"
    unfolding torch_exp_minus_90 by (rule log_prob_minus_90)
  show ?thesis by (intro conjI c1 c2 c3 c4 c5 torch_exp_minus_90 c7)
qed

text \<open>
  Claim C7. The claim asks for advantage 0 and loss 0 when all rewards are equal. With
  \<open>NUM_OPS = 3\<close>, \<open>NUM_LAYERS = 4\<close> and a mocked evaluation that scores every
  architecture 1/2, the ten rewards are all 1/2, and the first epoch of \<open>train_enas\<close> ends
  in \<open>UnboundLocalError\<close> instead of a loss.
\<close>

theorem train_enas_equal_rewards_raises:
  "enas_sample_loop zero_controller (fixed_predict ()) fixed_val_data half_draws 10 ([], None, 0)
     = Inr (replicate 10 (1 / 2),
            Some ([1, 1, 1, 1], [ln (1 / 3), ln (1 / 3), ln (1 / 3), ln (1 / 3)]), 40) \<and>
   train_enas_first_epoch zero_controller (\<lambda>net xy actions. net) fixed_predict ()
     [] fixed_val_data half_draws = Inl UnboundLocalError"
  by (simp add: zero_enas_sample_loop train_enas_first_epoch_def enas_controller_phase_def
      enas_controller_update_def)

text \<open>
  Claim C8. The claim has every phase with zero examples fail. The shared-weight phase
  of each of the three training loops is a loop over the training batches with nothing
  after it: with an empty training set it draws no architecture, aggregates nothing and
  completes, leaving the network and the random source as they were.
\<close>

theorem shared_phase_accepts_empty:
  "enas_shared_phase zero_controller keep_net half_draws [] ((), 0) = Inr ((), 0) \<and>
   ppo_shared_phase zero_ppo_controller keep_net half_draws 1 [] ((), 0) = Inr ((), 0) \<and>
   ua_shared_phase unit_ua_controller keep_net half_draws 1 [] ((), 0) = Inr ((), 0)"
  by simp

text \<open>
  Claim C8, amended. \<open>evaluate\<close> on an empty dataset raises \<open>ZeroDivisionError\<close>, the
  division of the two Python integers \<open>correct / total\<close>; on any dataset without examples
  it raises \<open>ZeroDivisionError\<close> or, when a batch of predictions does not fit its labels,
  the size error of \<open>predicted == y\<close>; it never returns \<open>nan\<close>, and an accuracy it returns
  is one over at least one example. The controller phase of each of the three training
  loops, once its sampler has returned a first architecture, fails in the same way
  when the validation set has no examples, with \<open>ZeroDivisionError\<close> when the validation
  set is empty. The number of architectures of a phase is the literal 10. The
  shared-weight phases compute no mean and do not fail on an empty training set.
\<close>

theorem evaluate_refuses_empty:
  "evaluate model actions [] = Inl ZeroDivisionError \<and>
   (num_examples data = 0 \<longrightarrow>
      evaluate model actions data = Inl ZeroDivisionError \<or>
      evaluate model actions data = Inl SizeMismatchError) \<and>
   evaluate model actions data \<noteq> Inl NanResult \<and>
   (\<forall>acc. evaluate model actions data = Inr acc \<longrightarrow> 0 < num_examples data) \<and>
   (\<forall>x. Controller_forward P u k NUM_LAYERS = Inr x \<longrightarrow>
      enas_controller_phase P net_model [] u k reward = Inl ZeroDivisionError \<and>
      (num_examples val_data = 0 \<longrightarrow>
         enas_controller_phase P net_model val_data u k reward = Inl ZeroDivisionError \<or>
         enas_controller_phase P net_model val_data u k reward = Inl SizeMismatchError)) \<and>
   (\<forall>x. PPOController_forward Q u k num_cells = Inr x \<longrightarrow>
      ppo_controller_phase Q opt_step cell_model [] u k num_cells = Inl ZeroDivisionError \<and>
      (num_examples val_data = 0 \<longrightarrow>
         ppo_controller_phase Q opt_step cell_model val_data u k num_cells
           = Inl ZeroDivisionError \<or>
         ppo_controller_phase Q opt_step cell_model val_data u k num_cells
           = Inl SizeMismatchError)) \<and>
   (\<forall>x. UncertaintyAwareController_forward U u k num_cells = Inr x \<longrightarrow>
      ua_controller_phase U cell_model [] u k num_cells = Inl ZeroDivisionError \<and>
      (num_examples val_data = 0 \<longrightarrow>
         ua_controller_phase U cell_model val_data u k num_cells = Inl ZeroDivisionError \<or>
         ua_controller_phase U cell_model val_data u k num_cells = Inl SizeMismatchError)) \<and>
   enas_shared_phase P shared_step u [] s = Inr s \<and>
   ppo_shared_phase Q cell_step u num_cells [] s' = Inr s' \<and>
   ua_shared_phase U cell_step u num_cells [] s' = Inr s'"
proof -
  have c1: "evaluate model actions [] = Inl ZeroDivisionError"
    by (rule evaluate_Nil)
  have c2: "num_examples data = 0 \<longrightarrow>
      evaluate model actions data = Inl ZeroDivisionError \<or>
      evaluate model actions data = Inl SizeMismatchError"
    using evaluate_zero_examples [of data model actions] by blast
  have c3: "evaluate model actions data \<noteq> Inl NanResult"
    using evaluate_Inl [of model actions data NanResult] by auto
  have c4: "\<forall>acc. evaluate model actions data = Inr acc \<longrightarrow> 0 < num_examples data"
    using evaluate_Inr_examples [of model actions data] by blast
  have c5: "\<forall>x. Controller_forward P u k NUM_LAYERS = Inr x \<longrightarrow>
      enas_controller_phase P net_model [] u k reward = Inl ZeroDivisionError \<and>
      (num_examples val_data = 0 \<longrightarrow>
         enas_controller_phase P net_model val_data u k reward = Inl ZeroDivisionError \<or>
         enas_controller_phase P net_model val_data u k reward = Inl SizeMismatchError)"
  proof (intro allI impI conjI)
    fix x assume f: "Controller_forward P u k NUM_LAYERS = Inr x"
    obtain a l k1 where x: "x = (a, l, k1)" by (cases x)
    note f' = f [unfolded x]
    show "enas_controller_phase P net_model [] u k reward = Inl ZeroDivisionError"
      using f' evaluate_Nil by (rule enas_phase_evaluate_fails)
    assume z: "num_examples val_data = 0"
    from evaluate_zero_examples [OF z, of net_model a]
    show "enas_controller_phase P net_model val_data u k reward = Inl ZeroDivisionError \<or>
          enas_controller_phase P net_model val_data u k reward = Inl SizeMismatchError"
      using enas_phase_evaluate_fails [OF f', of net_model val_data _ reward] by auto
  qed
  have c6: "\<forall>x. PPOController_forward Q u k num_cells = Inr x \<longrightarrow>
      ppo_controller_phase Q opt_step cell_model [] u k num_cells = Inl ZeroDivisionError \<and>
      (num_examples val_data = 0 \<longrightarrow>
         ppo_controller_phase Q opt_step cell_model val_data u k num_cells
           = Inl ZeroDivisionError \<or>
         ppo_controller_phase Q opt_step cell_model val_data u k num_cells
           = Inl SizeMismatchError)"
  proof (intro allI impI conjI)
    fix x assume f: "PPOController_forward Q u k num_cells = Inr x"
    obtain a l v k1 where x: "x = (a, l, v, k1)" by (cases x)
    note f' = f [unfolded x]
    show "ppo_controller_phase Q opt_step cell_model [] u k num_cells = Inl ZeroDivisionError"
      using f' evaluate_Nil by (rule ppo_phase_evaluate_fails)
    assume z: "num_examples val_data = 0"
    from evaluate_zero_examples [OF z, of cell_model a]
    show "ppo_controller_phase Q opt_step cell_model val_data u k num_cells
            = Inl ZeroDivisionError \<or>
          ppo_controller_phase Q opt_step cell_model val_data u k num_cells
            = Inl SizeMismatchError"
      using ppo_phase_evaluate_fails [OF f', of cell_model val_data _ opt_step] by auto
  qed
  have c7: "\<forall>x. UncertaintyAwareController_forward U u k num_cells = Inr x \<longrightarrow>
      ua_controller_phase U cell_model [] u k num_cells = Inl ZeroDivisionError \<and>
      (num_examples val_data = 0 \<longrightarrow>
         ua_controller_phase U cell_model val_data u k num_cells = Inl ZeroDivisionError \<or>
         ua_controller_phase U cell_model val_data u k num_cells = Inl SizeMismatchError)"
  proof (intro allI impI conjI)
    fix x assume f: "UncertaintyAwareController_forward U u k num_cells = Inr x"
    obtain a l v k1 where x: "x = (a, l, v, k1)" by (cases x)
    note f' = f [unfolded x]
    show "ua_controller_phase U cell_model [] u k num_cells = Inl ZeroDivisionError"
      using f' evaluate_Nil by (rule ua_phase_evaluate_fails)
    assume z: "num_examples val_data = 0"
    from evaluate_zero_examples [OF z, of cell_model a]
    show "ua_controller_phase U cell_model val_data u k num_cells = Inl ZeroDivisionError \<or>
          ua_controller_phase U cell_model val_data u k num_cells = Inl SizeMismatchError"
      using ua_phase_evaluate_fails [OF f', of cell_model val_data] by auto
  qed
  have c8: "enas_shared_phase P shared_step u [] s = Inr s" by simp
  have c9: "ppo_shared_phase Q cell_step u num_cells [] s' = Inr s'" by simp
  have c10: "ua_shared_phase U cell_step u num_cells [] s' = Inr s'" by simp
  show ?thesis by (intro conjI c1 c2 c3 c4 c5 c6 c7 c8 c9 c10)
qed

theorem evaluate_refuses_empty_witness:
  "num_examples [((), [])] = 0 \<and>
   evaluate (\<lambda>x a. []) [0, 1, 2, 0::nat] [((), [])] = Inl ZeroDivisionError \<and>
   evaluate (fixed_predict ()) [0, 1, 2, 0::nat] fixed_val_data = Inr (1 / 2) \<and>
   0 < num_examples fixed_val_data \<and>
   Controller_forward zero_controller half_draws 0 NUM_LAYERS
     = Inr ([1, 1, 1, 1], [ln (1 / 3), ln (1 / 3), ln (1 / 3), ln (1 / 3)], 4) \<and>
   enas_controller_phase zero_controller (\<lambda>x a. [])
       ([] :: (unit \<times> nat list) list) half_draws 0 None
     = Inl ZeroDivisionError \<and>
   enas_controller_phase zero_controller (\<lambda>x a. []) [((), [])] half_draws 0 None
     = Inl ZeroDivisionError \<and>
   PPOController_forward zero_ppo_controller half_draws 0 1
     = Inr ([replicate 12 2], replicate 12 (ln (1 / 5)), replicate 12 0, 12) \<and>
   ppo_controller_phase zero_ppo_controller (\<lambda>Q k. Q) (\<lambda>x a. [])
       ([] :: (unit \<times> nat list) list) half_draws 0 1
     = Inl ZeroDivisionError \<and>
   ppo_controller_phase zero_ppo_controller (\<lambda>Q k. Q) (\<lambda>x a. []) [((), [])] half_draws 0 1
     = Inl ZeroDivisionError \<and>
   UncertaintyAwareController_forward unit_ua_controller half_draws 0 1
     = Inr ([replicate 12 2], replicate 12 (ln (1 / 5)),
            replicate 12 \<lparr>loc = 0, scale = Fin 1\<rparr>, 12) \<and>
   ua_controller_phase unit_ua_controller (\<lambda>x a. [])
       ([] :: (unit \<times> nat list) list) half_draws 0 1
     = Inl ZeroDivisionError \<and>
   ua_controller_phase unit_ua_controller (\<lambda>x a. []) [((), [])] half_draws 0 1
     = Inl ZeroDivisionError"
proof -
  have h: "num_examples [((), [])] = 0" by (simp add: num_examples_def)
  have ne: "\<And>actions :: nat list.
              evaluate (\<lambda>x a. []) actions [((), [])] \<noteq> Inl SizeMismatchError"
    by (simp add: evaluate_def count_equal_def)
  have f1: "Controller_forward zero_controller half_draws 0 NUM_LAYERS
     = Inr ([1, 1, 1, 1], [ln (1 / 3), ln (1 / 3), ln (1 / 3), ln (1 / 3)], 4)"
    using zero_controller_forward_layers [of 0] by simp
  have f2: "UncertaintyAwareController_forward unit_ua_controller half_draws 0 1
     = Inr ([replicate 12 2], replicate 12 (ln (1 / 5)),
            replicate 12 \<lparr>loc = 0, scale = Fin 1\<rparr>, 12)"
    using unit_ua_forward [of 0] by simp
  note T = evaluate_refuses_empty
         [of "fixed_predict ()" "[0, 1, 2, 0::nat]" fixed_val_data zero_controller half_draws 0
             "\<lambda>x a. []" None "[((), [])]" zero_ppo_controller 1 "\<lambda>Q k. Q"
             "\<lambda>x a. []" unit_ua_controller]
  note T2 = evaluate_refuses_empty [of "\<lambda>x a. []" "[0, 1, 2, 0::nat]" "[((), [])]",
               THEN conjunct2, THEN conjunct1]
  have e: "evaluate (\<lambda>x a. []) [0, 1, 2, 0::nat] [((), [])] = Inl ZeroDivisionError"
    using T2 h ne [of "[0, 1, 2, 0::nat]"] by blast
  have p: "0 < num_examples fixed_val_data"
    using T [THEN conjunct2, THEN conjunct2, THEN conjunct2, THEN conjunct1]
      evaluate_fixed [of "[0, 1, 2, 0::nat]"] by blast
  note E = T [THEN conjunct2, THEN conjunct2, THEN conjunct2, THEN conjunct2, THEN conjunct1,
              THEN spec, THEN mp, OF f1]
  have p1: "enas_controller_phase zero_controller (\<lambda>x a. [])
      ([] :: (unit \<times> nat list) list) half_draws 0 None
     = Inl ZeroDivisionError"
    using E by (rule conjunct1)
  have "enas_controller_phase zero_controller (\<lambda>x a. []) [((), [])] half_draws 0 None
     \<noteq> Inl SizeMismatchError"
    using enas_phase_evaluate_fails [OF f1, of "\<lambda>x a. []" "[((), [])]" ZeroDivisionError None]
    by (simp add: evaluate_def count_equal_def)
  with E [THEN conjunct2] h
  have q1: "enas_controller_phase zero_controller (\<lambda>x a. []) [((), [])] half_draws 0 None
     = Inl ZeroDivisionError"
    by blast
  note Pp = T [THEN conjunct2, THEN conjunct2, THEN conjunct2, THEN conjunct2, THEN conjunct2,
               THEN conjunct1, THEN spec, THEN mp, OF zero_ppo_forward]
  have p2: "ppo_controller_phase zero_ppo_controller (\<lambda>Q k. Q) (\<lambda>x a. [])
      ([] :: (unit \<times> nat list) list) half_draws 0 1 = Inl ZeroDivisionError"
    using Pp by (rule conjunct1)
  have "ppo_controller_phase zero_ppo_controller (\<lambda>Q k. Q) (\<lambda>x a. []) [((), [])]
      half_draws 0 1 \<noteq> Inl SizeMismatchError"
    using ppo_phase_evaluate_fails [OF zero_ppo_forward, of "\<lambda>x a. []" "[((), [])]"
        ZeroDivisionError "\<lambda>Q k. Q"]
    by (simp add: evaluate_def count_equal_def)
  with Pp [THEN conjunct2] h
  have q2: "ppo_controller_phase zero_ppo_controller (\<lambda>Q k. Q) (\<lambda>x a. []) [((), [])]
      half_draws 0 1 = Inl ZeroDivisionError"
    by blast
  note U = T [THEN conjunct2, THEN conjunct2, THEN conjunct2, THEN conjunct2, THEN conjunct2,
              THEN conjunct2, THEN conjunct1, THEN spec, THEN mp, OF f2]
  have p3: "ua_controller_phase unit_ua_controller (\<lambda>x a. [])
      ([] :: (unit \<times> nat list) list) half_draws 0 1
     = Inl ZeroDivisionError"
    using U by (rule conjunct1)
  have "ua_controller_phase unit_ua_controller (\<lambda>x a. []) [((), [])] half_draws 0 1
     \<noteq> Inl SizeMismatchError"
    using ua_phase_evaluate_fails [OF f2, of "\<lambda>x a. []" "[((), [])]" ZeroDivisionError]
    by (simp add: evaluate_def count_equal_def)
  with U [THEN conjunct2] h
  have q3: "ua_controller_phase unit_ua_controller (\<lambda>x a. []) [((), [])] half_draws 0 1
     = Inl ZeroDivisionError"
    by blast
  show ?thesis
    by (intro conjI h e evaluate_fixed p f1 p1 q1 zero_ppo_forward p2 q2 f2 p3 q3)
qed

text \<open>
  Claim C9. In \<open>train_enas_ppo\<close>, when the network does not have exactly one cell and the
  ten trajectories have been sampled, \<open>old_log_probs\<close> has
  \<open>10 * (num_cells * NUM_NODES * 3)\<close> entries, while \<open>ppo_update\<close> runs the controller
  with \<open>len(actions_list) = 10\<close> cells and gets \<open>10 * NUM_NODES * 3\<close> new log-probabilities:
  the lengths differ, the subtraction fails, and so do \<open>ppo_update\<close> and the phase.
\<close>

theorem ppo_log_prob_length_mismatch:
  assumes nc: "num_cells \<noteq> 1"
    and wf: "\<forall>h. length (actor Q h) = NUM_OPS"
    and s: "ppo_sample_loop Q model val_data u num_cells 10 ([], [], [], [], k)
              = Inr (rewards, old_log_probs_list, old_values_list, actions_list, k')"
  shows "length (concat old_log_probs_list) = 10 * (num_cells * NUM_NODES * 3) \<and>
         length actions_list = 10 \<and>
         (\<exists>new_actions new_log_probs new_values k''.
            PPOController_forward Q u k' (length actions_list)
              = Inr (new_actions, new_log_probs, new_values, k'') \<and>
            length new_log_probs = 10 * NUM_NODES * 3 \<and>
            length new_log_probs \<noteq> length (concat old_log_probs_list) \<and>
            broadcast2 (-) new_log_probs (concat old_log_probs_list) = Inl SizeMismatchError) \<and>
         ppo_update Q u k' (concat old_log_probs_list) (concat old_values_list) rewards
             actions_list epsilon = Inl SizeMismatchError \<and>
         ppo_controller_phase Q opt_step model val_data u k num_cells = Inl SizeMismatchError"
proof -
  let ?old = "concat old_log_probs_list"
  note C = ppo_sample_loop_char [OF s]
  have lo: "length ?old = 10 * (num_cells * (NUM_NODES * 3))"
    using C [THEN conjunct2, THEN conjunct2, THEN conjunct2, THEN conjunct2, THEN conjunct2,
             THEN conjunct1]
    by simp
  have la: "length actions_list = 10"
    using C [THEN conjunct2, THEN conjunct2, THEN conjunct2, THEN conjunct1] by simp
  have ll: "length old_log_probs_list = 10"
    using C [THEN conjunct2, THEN conjunct1] by simp
  have lvl: "length old_values_list = 10"
    using C [THEN conjunct2, THEN conjunct2, THEN conjunct1] by simp
  have pos: "0 < num_cells"
    using C [THEN conjunct2, THEN conjunct2, THEN conjunct2, THEN conjunct2, THEN conjunct1]
    by simp
  with nc have two: "2 \<le> num_cells" by arith
  have ten: "0 < (10::nat)" by simp
  from PPOController_forward_shape [OF ten wf, of u k']
  obtain new_actions new_log_probs new_values k'' where
    f: "PPOController_forward Q u k' 10 = Inr (new_actions, new_log_probs, new_values, k'')"
    and ln: "length new_log_probs = 10 * NUM_NODES * 3"
    by blast
  have lo': "length ?old = 120 * num_cells" using lo by (simp add: NUM_NODES_def)
  have ln': "length new_log_probs = 120" using ln by (simp add: NUM_NODES_def)
  have ne: "length new_log_probs \<noteq> length ?old" using two unfolding lo' ln' by arith
  have n1: "length new_log_probs \<noteq> 1" unfolding ln' by simp
  have o1: "length ?old \<noteq> 1" using two unfolding lo' by arith
  have b: "broadcast2 (-) new_log_probs ?old = Inl SizeMismatchError"
    using ne n1 o1 by (rule broadcast2_mismatch)
  have up: "\<And>eps. ppo_update Q u k' ?old (concat old_values_list) rewards actions_list eps
              = Inl SizeMismatchError"
    by (simp add: ppo_update_def la f b)
  have "0 < length old_log_probs_list" "0 < length old_values_list"
    using ll lvl by simp_all
  then have nel: "old_log_probs_list \<noteq> []" "old_values_list \<noteq> []" by simp_all
  have p1: "ppo_controller_phase Q opt_step model val_data u k num_cells
              = ppo_update_loop opt_step u ?old (concat old_values_list) rewards actions_list 5
                  (Q, k')"
    by (simp add: ppo_controller_phase_def s nel)
  have p2: "ppo_update_loop opt_step u ?old (concat old_values_list) rewards actions_list
              (Suc 4) (Q, k') = Inl SizeMismatchError"
    by (simp only: ppo_update_loop.simps up sum.case)
  have ph: "ppo_controller_phase Q opt_step model val_data u k num_cells
              = Inl SizeMismatchError"
    unfolding p1 five_Suc by (rule p2)
  have c1: "length ?old = 10 * (num_cells * NUM_NODES * 3)"
    using lo by (simp add: mult.assoc)
  have c3: "\<exists>new_actions new_log_probs new_values k''.
            PPOController_forward Q u k' (length actions_list)
              = Inr (new_actions, new_log_probs, new_values, k'') \<and>
            length new_log_probs = 10 * NUM_NODES * 3 \<and>
            length new_log_probs \<noteq> length ?old \<and>
            broadcast2 (-) new_log_probs ?old = Inl SizeMismatchError"
    unfolding la using f ln ne b by blast
  show ?thesis by (intro conjI c1 la c3 up ph)
qed

theorem ppo_log_prob_length_mismatch_witness:
  "(2::nat) \<noteq> 1 \<and>
   (\<forall>h. length (actor zero_ppo_controller h) = NUM_OPS) \<and>
   ppo_sample_loop zero_ppo_controller (fixed_predict ()) fixed_val_data half_draws 2 10
       ([], [], [], [], 0)
     = Inr (replicate 10 (1 / 2), replicate 10 (replicate 24 (ln (1 / 5))),
            replicate 10 (replicate 24 0),
            replicate 10 [replicate 12 2, replicate 12 2], 240) \<and>
   length (concat (replicate 10 (replicate 24 (ln (1 / 5 :: real))))) = 10 * (2 * NUM_NODES * 3) \<and>
   ppo_update zero_ppo_controller half_draws 240
       (concat (replicate 10 (replicate 24 (ln (1 / 5))))) (concat (replicate 10 (replicate 24 0)))
       (replicate 10 (1 / 2)) (replicate 10 [replicate 12 2, replicate 12 (2::nat)]) (1 / 5)
     = Inl SizeMismatchError \<and>
   ppo_controller_phase zero_ppo_controller (\<lambda>Q k. Q) (fixed_predict ()) fixed_val_data
       half_draws 0 2 = Inl SizeMismatchError"
proof -
  have h1: "(2::nat) \<noteq> 1" by simp
  have h2: "\<forall>h. length (actor zero_ppo_controller h) = NUM_OPS"
    by (simp add: zero_ppo_controller_def NUM_OPS_def)
  note T = ppo_log_prob_length_mismatch [OF h1 h2 zero_ppo_sample_loop, of "1 / 5" "\<lambda>Q k. Q"]
  show ?thesis
    by (intro conjI h1 h2 zero_ppo_sample_loop T [THEN conjunct1]
        T [THEN conjunct2, THEN conjunct2, THEN conjunct2, THEN conjunct1]
        T [THEN conjunct2, THEN conjunct2, THEN conjunct2, THEN conjunct2])
qed




end
